theory Spec2Isabelle
  imports Complex_Main "HOL-Library.Log_Nat"
begin

section \<open>JavaScript numbers\<close>

text \<open>
  A JavaScript \<open>number\<close> is an IEEE 754 binary64 value: a finite value, one of the two
  infinities, or NaN. A finite value is kept as the exact rational it denotes. The two
  zeros are identified: no code path below tells \<open>-0\<close> from \<open>0\<close> (both are falsy, both are
  finite, \<open>Math.max(0, -0)\<close> is \<open>0\<close>).
\<close>

datatype jsnum = Fin rat | PInf | NInf | NaN

definition pow2 :: "int \<Rightarrow> rat" where
  "pow2 e = (if 0 \<le> e then 2 ^ nat e else 1 / 2 ^ nat (- e))"

text \<open>\<open>ilog2 a\<close> is the exponent \<open>e\<close> with \<open>2^e \<le> a < 2^(e+1)\<close>, for \<open>a > 0\<close>.\<close>

definition ilog2 :: "rat \<Rightarrow> int" where
  "ilog2 a = (if 1 \<le> a then bitlen \<lfloor>a\<rfloor> - 1 else - bitlen (\<lceil>1 / a\<rceil> - 1))"

text \<open>Round to the nearest integer, ties to the even one.\<close>

definition round_half_even :: "rat \<Rightarrow> int" where
  "round_half_even m =
     (let f = \<lfloor>m\<rfloor>; d = m - of_int f
      in if d < 1 / 2 then f
         else if 1 / 2 < d then f + 1
         else if even f then f else f + 1)"

text \<open>
  \<open>fl64 q\<close> is the binary64 value of the exact result \<open>q\<close> under the default rounding
  (nearest, ties to even): 53 significant bits, exponents down to \<open>-1022\<close> (below that the
  spacing stays \<open>2^-1074\<close>), and overflow to an infinity once the rounded magnitude reaches
  \<open>2^1024\<close>. A decimal literal of the source or of a provider string, and the product
  \<open>value * 100\<close>, are all roundings of this kind.
\<close>

definition fl64 :: "rat \<Rightarrow> jsnum" where
  "fl64 q =
     (if q = 0 then Fin 0
      else let a = \<bar>q\<bar>;
               e = max (ilog2 a) (- 1022);
               quantum = pow2 (e - 52);
               r = of_int (round_half_even (a / quantum)) * quantum
           in if pow2 1024 \<le> r then (if 0 < q then PInf else NInf)
              else Fin (if 0 < q then r else - r))"

text \<open>The product of two numbers (\<open>*\<close>); only the sign of a factor matters beside an infinity.\<close>

fun js_mul :: "jsnum \<Rightarrow> jsnum \<Rightarrow> jsnum" where
  "js_mul NaN _ = NaN"
| "js_mul _ NaN = NaN"
| "js_mul (Fin a) (Fin b) = fl64 (a * b)"
| "js_mul (Fin a) PInf = (if a = 0 then NaN else if 0 < a then PInf else NInf)"
| "js_mul (Fin a) NInf = (if a = 0 then NaN else if 0 < a then NInf else PInf)"
| "js_mul PInf (Fin b) = (if b = 0 then NaN else if 0 < b then PInf else NInf)"
| "js_mul NInf (Fin b) = (if b = 0 then NaN else if 0 < b then NInf else PInf)"
| "js_mul PInf PInf = PInf"
| "js_mul PInf NInf = NInf"
| "js_mul NInf PInf = NInf"
| "js_mul NInf NInf = PInf"

text \<open>
  \<open>Math.round\<close>: the closest integer, a tie going towards \<open>+\<infinity>\<close>; the non-finite values
  are returned as they are. The result of rounding a finite binary64 value is a binary64
  value again, so no second rounding is applied.
\<close>

fun Math_round :: "jsnum \<Rightarrow> jsnum" where
  "Math_round (Fin q) = Fin (of_int \<lfloor>q + 1 / 2\<rfloor>)"
| "Math_round x = x"

text \<open>\<open>Math.max\<close> of two numbers: NaN if either is NaN.\<close>

fun Math_max :: "jsnum \<Rightarrow> jsnum \<Rightarrow> jsnum" where
  "Math_max NaN _ = NaN"
| "Math_max _ NaN = NaN"
| "Math_max PInf _ = PInf"
| "Math_max _ PInf = PInf"
| "Math_max NInf y = y"
| "Math_max x NInf = x"
| "Math_max (Fin a) (Fin b) = Fin (max a b)"

text \<open>\<open>Number.isFinite\<close> on a number.\<close>

fun isFinite :: "jsnum \<Rightarrow> bool" where
  "isFinite (Fin _) = True"
| "isFinite _ = False"

text \<open>A number that is an integer and not negative.\<close>

fun nonneg_integer :: "jsnum \<Rightarrow> bool" where
  "nonneg_integer (Fin q) = (0 \<le> q \<and> of_int \<lfloor>q\<rfloor> = q)"
| "nonneg_integer _ = False"

section \<open>Building the request: price filters\<close>

text \<open>\<open>toSubUnits\<close> of \<open>clients/amazon.ts\<close>: \<open>Math.max(0, Math.round(value * 100))\<close>.\<close>

definition toSubUnits :: "jsnum \<Rightarrow> jsnum" where
  "toSubUnits v = Math_max (Fin 0) (Math_round (js_mul v (Fin 100)))"

section \<open>JavaScript values\<close>

text \<open>
  The reply of the provider is whatever \<open>JSON.parse\<close> returns: the TypeScript interfaces
  \<open>AmazonSearchItemsResponse\<close> and \<open>AmazonItem\<close> are erased when the program runs, so a value
  of any JSON shape reaches the code. \<open>JUndefined\<close> is what reading a missing property
  gives; it never occurs inside a parsed reply. An object is the list of its own members
  (\<open>JSON.parse\<close> keeps one member per key). A string is a well-formed text, kept as the
  bytes of its UTF-8 encoding: the bytes that are hashed and sent.
\<close>

datatype jsval =
    JUndefined
  | JNull
  | JBool bool
  | JNum jsnum
  | JStr string
  | JArr "jsval list"
  | JObj "(string \<times> jsval) list"

text \<open>
  The source throws a plain \<open>Error\<close> with a message at three places. The constructor records
  the place, under the name the specification gives the error kind: \<open>MalformedResponse\<close> is
  the \<open>throw\<close> in the \<open>catch\<close> around \<open>JSON.parse\<close>, \<open>ProviderRejected\<close> the two after it.
  \<open>TypeError\<close> is the exception the engine raises on reading a property of \<open>null\<close> or
  \<open>undefined\<close>, or on calling something that is not a function.
\<close>

datatype error = MalformedResponse string | ProviderRejected string | TypeError

fun nullish :: "jsval \<Rightarrow> bool" where
  "nullish JUndefined = True"
| "nullish JNull = True"
| "nullish _ = False"

text \<open>Truthiness (\<open>ToBoolean\<close>), as \<open>if (x)\<close> and \<open>!x\<close> use it.\<close>

fun truthy :: "jsval \<Rightarrow> bool" where
  "truthy JUndefined = False"
| "truthy JNull = False"
| "truthy (JBool b) = b"
| "truthy (JNum (Fin q)) = (q \<noteq> 0)"
| "truthy (JNum NaN) = False"
| "truthy (JNum _) = True"
| "truthy (JStr s) = (s \<noteq> [])"
| "truthy (JArr _) = True"
| "truthy (JObj _) = True"

text \<open>
  \<open>member v p\<close> is \<open>v.p\<close> for a value \<open>v\<close> that is neither \<open>null\<close> nor \<open>undefined\<close>, for the
  property names the source reads: an own member of an object, the \<open>length\<close> and the index
  \<open>0\<close> of an array or a string, and \<open>undefined\<close> otherwise (none of the names read is
  inherited from a prototype). Of the \<open>length\<close> of a string the source asks only whether
  it is zero, and of its index \<open>0\<close> only a member, which no string has: the count and the
  first unit are taken over the bytes.
\<close>

fun member :: "jsval \<Rightarrow> string \<Rightarrow> jsval" where
  "member (JObj kvs) p = (case map_of kvs p of None \<Rightarrow> JUndefined | Some v \<Rightarrow> v)"
| "member (JArr xs) p =
     (if p = ''length'' then JNum (Fin (of_nat (length xs)))
      else if p = ''0'' then (case xs of [] \<Rightarrow> JUndefined | x # _ \<Rightarrow> x)
      else JUndefined)"
| "member (JStr s) p =
     (if p = ''length'' then JNum (Fin (of_nat (length s)))
      else if p = ''0'' then (case s of [] \<Rightarrow> JUndefined | c # _ \<Rightarrow> JStr [c])
      else JUndefined)"
| "member _ p = JUndefined"

text \<open>\<open>v.p\<close>: a \<open>TypeError\<close> when \<open>v\<close> is \<open>null\<close> or \<open>undefined\<close>.\<close>

definition getProp :: "jsval \<Rightarrow> string \<Rightarrow> error + jsval" where
  "getProp v p = (if nullish v then Inl TypeError else Inr (member v p))"

text \<open>\<open>v?.p\<close> (and \<open>v?.[0]\<close>): \<open>undefined\<close> when \<open>v\<close> is \<open>null\<close> or \<open>undefined\<close>.\<close>

definition optProp :: "jsval \<Rightarrow> string \<Rightarrow> jsval" where
  "optProp v p = (if nullish v then JUndefined else member v p)"

text \<open>\<open>a ?? b\<close>.\<close>

definition coalesce :: "jsval \<Rightarrow> jsval \<Rightarrow> jsval" where
  "coalesce a b = (if nullish a then b else a)"

text \<open>\<open>xs.join(sep)\<close> on an array of strings.\<close>

fun join :: "string \<Rightarrow> string list \<Rightarrow> string" where
  "join sep [] = []"
| "join sep [x] = x"
| "join sep (x # y # ys) = x @ sep @ join sep (y # ys)"

text \<open>
  \<open>ToString\<close>, as a template literal applies it. The decimal printing of a number
  (\<open>Number::toString\<close>, the shortest digits that read back as the same binary64 value) is
  left to the engine: it is the parameter \<open>numToString\<close>. An array prints its elements
  joined by commas, \<open>null\<close> and \<open>undefined\<close> as the empty string. An object is printed by
  its \<open>toString\<close> method: the inherited one gives \<open>[object Object]\<close>, but an own member
  named \<open>toString\<close> hides it, and since no JSON value can be called (nor can an own
  \<open>valueOf\<close>, and the inherited one returns the object itself), the conversion then raises
  a \<open>TypeError\<close>.
\<close>

fun ToString :: "(jsnum \<Rightarrow> string) \<Rightarrow> jsval \<Rightarrow> error + string"
  and ToString_elements :: "(jsnum \<Rightarrow> string) \<Rightarrow> jsval list \<Rightarrow> error + string list" where
  "ToString numToString JUndefined = Inr ''undefined''"
| "ToString numToString JNull = Inr ''null''"
| "ToString numToString (JBool b) = Inr (if b then ''true'' else ''false'')"
| "ToString numToString (JNum n) = Inr (numToString n)"
| "ToString numToString (JStr s) = Inr s"
| "ToString numToString (JArr xs) =
     (case ToString_elements numToString xs of
        Inl e \<Rightarrow> Inl e
      | Inr ss \<Rightarrow> Inr (join '','' ss))"
| "ToString numToString (JObj kvs) =
     (if map_of kvs ''toString'' = None then Inr ''[object Object]'' else Inl TypeError)"
| "ToString_elements numToString [] = Inr []"
| "ToString_elements numToString (x # xs) =
     (case (if nullish x then Inr [] else ToString numToString x) of
        Inl e \<Rightarrow> Inl e
      | Inr s \<Rightarrow>
          (case ToString_elements numToString xs of
             Inl e \<Rightarrow> Inl e
           | Inr ss \<Rightarrow> Inr (s # ss)))"

section \<open>Strings to numbers\<close>

text \<open>
  \<open>Number(s)\<close> on a string (\<open>StringToNumber\<close>): white space is trimmed, the empty string
  is \<open>0\<close>, then a binary, octal or hexadecimal integer with its prefix, or an optionally
  signed \<open>Infinity\<close> or decimal literal (digits, fraction, exponent); anything else is NaN.
  The value is rounded to the nearest binary64 value. White space is the ASCII characters
  tab, line feed, vertical tab, form feed, carriage return and space (\<open>ws1\<close>), the
  no-break space U+00A0 (\<open>ws2\<close>, its two bytes), and U+1680, U+2000 to U+200A, U+2028,
  U+2029, U+202F, U+205F, U+3000 and U+FEFF (\<open>ws3\<close>, their three bytes).
\<close>

definition is_digit :: "char \<Rightarrow> bool" where
  "is_digit c = (48 \<le> (of_char c :: nat) \<and> (of_char c :: nat) \<le> 57)"

definition ws1 :: "char \<Rightarrow> bool" where
  "ws1 c = ((of_char c :: nat) \<in> {9, 10, 11, 12, 13, 32})"

definition ws2 :: "char \<Rightarrow> char \<Rightarrow> bool" where
  "ws2 a b = ((of_char a :: nat) = 0xC2 \<and> (of_char b :: nat) = 0xA0)"

definition ws3 :: "char \<Rightarrow> char \<Rightarrow> char \<Rightarrow> bool" where
  "ws3 a b c =
     (let x = (of_char a :: nat); y = (of_char b :: nat); z = (of_char c :: nat)
      in (x = 0xE1 \<and> y = 0x9A \<and> z = 0x80)
         \<or> (x = 0xE2 \<and> y = 0x80 \<and>
             ((0x80 \<le> z \<and> z \<le> 0x8A) \<or> z = 0xA8 \<or> z = 0xA9 \<or> z = 0xAF))
         \<or> (x = 0xE2 \<and> y = 0x81 \<and> z = 0x9F)
         \<or> (x = 0xE3 \<and> y = 0x80 \<and> z = 0x80)
         \<or> (x = 0xEF \<and> y = 0xBB \<and> z = 0xBF))"

text \<open>White space taken off the front of a text.\<close>

fun trimStart :: "string \<Rightarrow> string" where
  "trimStart (a # b # c # s) =
     (if ws1 a then trimStart (b # c # s)
      else if ws2 a b then trimStart (c # s)
      else if ws3 a b c then trimStart s
      else a # b # c # s)"
| "trimStart [a, b] = (if ws1 a then trimStart [b] else if ws2 a b then [] else [a, b])"
| "trimStart [a] = (if ws1 a then [] else [a])"
| "trimStart [] = []"

text \<open>White space taken off the end of a text, on the text read backwards.\<close>

fun trimEndRev :: "string \<Rightarrow> string" where
  "trimEndRev (c # b # a # s) =
     (if ws1 c then trimEndRev (b # a # s)
      else if ws2 b c then trimEndRev (a # s)
      else if ws3 a b c then trimEndRev s
      else c # b # a # s)"
| "trimEndRev [c, b] = (if ws1 c then trimEndRev [b] else if ws2 b c then [] else [c, b])"
| "trimEndRev [c] = (if ws1 c then [] else [c])"
| "trimEndRev [] = []"

definition hex_val :: "char \<Rightarrow> nat option" where
  "hex_val c =
     (let n = (of_char c :: nat)
      in if 48 \<le> n \<and> n \<le> 57 then Some (n - 48)
         else if 97 \<le> n \<and> n \<le> 102 then Some (n - 87)
         else if 65 \<le> n \<and> n \<le> 70 then Some (n - 55)
         else None)"

definition radix_value :: "nat \<Rightarrow> string \<Rightarrow> nat option" where
  "radix_value b ds =
     (if ds \<noteq> [] \<and> list_all (\<lambda>c. case hex_val c of None \<Rightarrow> False | Some d \<Rightarrow> d < b) ds
      then Some (foldl (\<lambda>acc c. acc * b + the (hex_val c)) 0 ds)
      else None)"

definition trim :: "string \<Rightarrow> string" where
  "trim s = rev (trimEndRev (rev (trimStart s)))"

definition NonDecimalIntegerLiteral :: "string \<Rightarrow> nat option" where
  "NonDecimalIntegerLiteral s =
     (case s of
        z # x # ds \<Rightarrow>
          if z \<noteq> CHR ''0'' then None
          else if x = CHR ''x'' \<or> x = CHR ''X'' then radix_value 16 ds
          else if x = CHR ''o'' \<or> x = CHR ''O'' then radix_value 8 ds
          else if x = CHR ''b'' \<or> x = CHR ''B'' then radix_value 2 ds
          else None
      | _ \<Rightarrow> None)"

definition DecimalDigits :: "string \<Rightarrow> int option" where
  "DecimalDigits ds = map_option int (radix_value 10 ds)"

definition ExponentPart :: "string \<Rightarrow> int option" where
  "ExponentPart s =
     (case s of
        [] \<Rightarrow> Some 0
      | c # t \<Rightarrow>
          if c = CHR ''e'' \<or> c = CHR ''E'' then
            (case t of
               [] \<Rightarrow> None
             | sg # ds \<Rightarrow>
                 if sg = CHR ''+'' then DecimalDigits ds
                 else if sg = CHR ''-'' then map_option uminus (DecimalDigits ds)
                 else DecimalDigits t)
          else None)"

definition pow10 :: "int \<Rightarrow> rat" where
  "pow10 e = (if 0 \<le> e then 10 ^ nat e else 1 / 10 ^ nat (- e))"

definition StrUnsignedDecimalLiteral :: "string \<Rightarrow> rat option" where
  "StrUnsignedDecimalLiteral s =
     (let ip = takeWhile is_digit s;
          r1 = dropWhile is_digit s;
          dot = (r1 \<noteq> [] \<and> hd r1 = CHR ''.'');
          fp = (if dot then takeWhile is_digit (tl r1) else []);
          r2 = (if dot then dropWhile is_digit (tl r1) else r1)
      in if ip = [] \<and> fp = [] then None
         else case ExponentPart r2 of
                None \<Rightarrow> None
              | Some e \<Rightarrow>
                  Some (of_nat (foldl (\<lambda>acc c. acc * 10 + the (hex_val c)) 0 (ip @ fp))
                        * pow10 (e - int (length fp))))"

definition unsigned_literal :: "string \<Rightarrow> jsnum" where
  "unsigned_literal u =
     (if u = ''Infinity'' then PInf
      else case StrUnsignedDecimalLiteral u of None \<Rightarrow> NaN | Some q \<Rightarrow> fl64 q)"

fun js_neg :: "jsnum \<Rightarrow> jsnum" where
  "js_neg (Fin q) = Fin (- q)"
| "js_neg PInf = NInf"
| "js_neg NInf = PInf"
| "js_neg NaN = NaN"

definition StringToNumber :: "string \<Rightarrow> jsnum" where
  "StringToNumber s =
     (let t = trim s
      in case t of
           [] \<Rightarrow> Fin 0
         | c # r \<Rightarrow>
             (case NonDecimalIntegerLiteral t of
                Some n \<Rightarrow> fl64 (of_nat n)
              | None \<Rightarrow>
                  if c = CHR ''-'' then js_neg (unsigned_literal r)
                  else if c = CHR ''+'' then unsigned_literal r
                  else unsigned_literal t))"

section \<open>Normalizing a reply\<close>

record normalizedPrice =
  display :: jsval
  amount :: "jsnum option"
  currency :: "jsval option"

record productSummary =
  asin :: jsval
  title :: jsval
  detailPageUrl :: "jsval option"
  price :: "normalizedPrice option"
  rating :: "jsnum option"
  totalReviews :: "jsnum option"
  imageUrl :: "jsval option"

record searchProductsResult =
  products :: "productSummary list"
  requestId :: "jsval option"

text \<open>The part of \<open>fetch\<close>'s \<open>Response\<close> that the client reads.\<close>

record response =
  resp_ok :: bool
  resp_status :: nat
  resp_text :: string

text \<open>\<open>parseNumber\<close>: a finite number, or a string whose \<open>Number(...)\<close> is finite.\<close>

definition parseNumber :: "jsval \<Rightarrow> jsnum option" where
  "parseNumber v =
     (case v of
        JNum n \<Rightarrow> if isFinite n then Some n else None
      | JStr s \<Rightarrow> (let parsed = StringToNumber s in if isFinite parsed then Some parsed else None)
      | _ \<Rightarrow> None)"

definition parseInteger :: "jsval \<Rightarrow> jsnum option" where
  "parseInteger v =
     (case parseNumber v of
        None \<Rightarrow> None
      | Some parsed \<Rightarrow>
          (let rounded = Math_round parsed in if isFinite rounded then Some rounded else None))"

text \<open>
  \<open>normalizePrice\<close>. After the guard \<open>!price?.DisplayAmount\<close> the argument is neither \<open>null\<close>
  nor \<open>undefined\<close>, so the reads that follow cannot fail.
\<close>

definition normalizePrice :: "jsval \<Rightarrow> normalizedPrice option" where
  "normalizePrice p =
     (if \<not> truthy (optProp p ''DisplayAmount'') then None
      else Some \<lparr> display = member p ''DisplayAmount'',
                  amount = (case member p ''Amount'' of
                              JNum n \<Rightarrow> if isFinite n then Some n else None
                            | _ \<Rightarrow> None),
                  currency = (if truthy (member p ''Currency'')
                              then Some (member p ''Currency'') else None) \<rparr>)"

text \<open>
  \<open>normalizeItem\<close>. The first read, \<open>item.Offers\<close>, raises a \<open>TypeError\<close> when the item is
  \<open>null\<close>; once it has succeeded, the later reads \<open>item.X\<close> cannot fail, and every deeper
  read is an optional one (\<open>?.\<close>).
\<close>

definition normalizeItem :: "jsval \<Rightarrow> error + productSummary" where
  "normalizeItem item =
     (case getProp item ''Offers'' of
        Inl e \<Rightarrow> Inl e
      | Inr offers \<Rightarrow>
          (let listing = optProp (optProp offers ''Listings'') ''0'';
               pr = normalizePrice (optProp listing ''Price'');
               reviews = member item ''CustomerReviews'';
               rt = parseNumber (optProp reviews ''StarRating'');
               reviewCount = parseInteger (coalesce (optProp reviews ''TotalReviewCount'')
                                                    (optProp reviews ''Count''));
               primary = optProp (member item ''Images'') ''Primary'';
               url = coalesce (optProp (optProp primary ''Medium'') ''URL'')
                       (coalesce (optProp (optProp primary ''Small'') ''URL'')
                                 (optProp (optProp primary ''Large'') ''URL''))
           in Inr \<lparr> asin = member item ''ASIN'',
                    title = coalesce (optProp (optProp (member item ''ItemInfo'') ''Title'')
                                              ''DisplayValue'')
                                     (member item ''ASIN''),
                    detailPageUrl = (if truthy (member item ''DetailPageURL'')
                                     then Some (member item ''DetailPageURL'') else None),
                    price = pr,
                    rating = rt,
                    totalReviews = reviewCount,
                    imageUrl = (if truthy url then Some url else None) \<rparr>))"

text \<open>\<open>xs.map(f)\<close> with a callback that may throw: the first exception ends the call.\<close>

fun mapM :: "('a \<Rightarrow> error + 'b) \<Rightarrow> 'a list \<Rightarrow> error + 'b list" where
  "mapM f [] = Inr []"
| "mapM f (x # xs) =
     (case f x of
        Inl e \<Rightarrow> Inl e
      | Inr y \<Rightarrow> (case mapM f xs of Inl e \<Rightarrow> Inl e | Inr ys \<Rightarrow> Inr (y # ys)))"

text \<open>
  The callback of \<open>formatErrorMessages\<close>, for one entry of the error list: the template
  literal converts the code, then the message, to text.
\<close>

definition formatErrorEntry :: "(jsnum \<Rightarrow> string) \<Rightarrow> jsval \<Rightarrow> error + string" where
  "formatErrorEntry numToString entry =
     (case getProp entry ''Code'' of
        Inl e \<Rightarrow> Inl e
      | Inr c \<Rightarrow>
          (case ToString numToString (coalesce c (JStr ''UnknownCode'')) of
             Inl e \<Rightarrow> Inl e
           | Inr codeText \<Rightarrow>
               (case ToString numToString
                       (coalesce (member entry ''Message'')
                                 (JStr ''Unknown error from Amazon Product Advertising API'')) of
                  Inl e \<Rightarrow> Inl e
                | Inr messageText \<Rightarrow> Inr (codeText @ '': '' @ messageText))))"

text \<open>
  \<open>formatErrorMessages\<close>: \<open>undefined\<close> (here \<open>None\<close>) when \<open>errors?.length\<close> is falsy. Only an
  array has a \<open>map\<close> method: on any other value with a truthy \<open>length\<close> the call
  \<open>errors.map(...)\<close> raises a \<open>TypeError\<close>.
\<close>

definition formatErrorMessages :: "(jsnum \<Rightarrow> string) \<Rightarrow> jsval \<Rightarrow> error + string option" where
  "formatErrorMessages numToString errors =
     (if \<not> truthy (optProp errors ''length'') then Inr None
      else case errors of
             JArr xs \<Rightarrow>
               (case mapM (formatErrorEntry numToString) xs of
                  Inl e \<Rightarrow> Inl e
                | Inr ms \<Rightarrow> Inr (Some (join ''; '' ms)))
           | _ \<Rightarrow> Inl TypeError)"

text \<open>Decimal digits of a status code.\<close>

fun show_nat :: "nat \<Rightarrow> string" where
  "show_nat n =
     (if n < 10 then [''0123456789'' ! n]
      else show_nat (n div 10) @ [''0123456789'' ! (n mod 10)])"

declare show_nat.simps [simp del]

text \<open>
  \<open>searchProducts\<close> from the test \<open>!response.ok\<close> to the end: what is done with the parsed
  reply \<open>payload\<close>.
\<close>

definition handlePayload ::
  "(jsnum \<Rightarrow> string) \<Rightarrow> response \<Rightarrow> jsval \<Rightarrow> error + searchProductsResult" where
  "handlePayload numToString resp payload =
     (if \<not> resp_ok resp then
        (case getProp payload ''Errors'' of
           Inl e \<Rightarrow> Inl e
         | Inr errors \<Rightarrow>
             (case formatErrorMessages numToString errors of
                Inl e \<Rightarrow> Inl e
              | Inr (Some m) \<Rightarrow> Inl (ProviderRejected m)
              | Inr None \<Rightarrow>
                  Inl (ProviderRejected (''Amazon API responded with status '' @
                                         show_nat (resp_status resp)))))
      else
        (case getProp payload ''Errors'' of
           Inl e \<Rightarrow> Inl e
         | Inr errors \<Rightarrow>
             if truthy (optProp errors ''length'') then
               (case formatErrorMessages numToString errors of
                  Inl e \<Rightarrow> Inl e
                | Inr (Some m) \<Rightarrow> Inl (ProviderRejected m)
                | Inr None \<Rightarrow> Inl (ProviderRejected ''Unknown Amazon API error''))
             else
               (case coalesce (optProp (member payload ''SearchResult'') ''Items'') (JArr []) of
                  JArr items \<Rightarrow>
                    (case mapM normalizeItem items of
                       Inl e \<Rightarrow> Inl e
                     | Inr ps \<Rightarrow>
                         Inr \<lparr> products = ps,
                                requestId = (if truthy (member payload ''RequestId'')
                                             then Some (member payload ''RequestId'')
                                             else None) \<rparr>)
                | _ \<Rightarrow> Inl TypeError)))"

text \<open>
  The \<open>try\<close> block: \<open>payload = rawPayload ? JSON.parse(rawPayload) : {}\<close>. \<open>JSON.parse\<close> is the
  engine's; it is the parameter \<open>parse\<close>, which returns the parsed value or the message of
  the \<open>SyntaxError\<close> it throws.
\<close>

definition parsePayload :: "(string \<Rightarrow> string + jsval) \<Rightarrow> string \<Rightarrow> error + jsval" where
  "parsePayload parse rawPayload =
     (if rawPayload \<noteq> [] then
        (case parse rawPayload of
           Inl m \<Rightarrow> Inl (MalformedResponse (''Unable to parse Amazon API response as JSON: '' @ m))
         | Inr v \<Rightarrow> Inr v)
      else Inr (JObj []))"

text \<open>\<open>searchProducts\<close> from the reply of \<open>fetch\<close> on.\<close>

definition searchProducts_reply ::
  "(string \<Rightarrow> string + jsval) \<Rightarrow> (jsnum \<Rightarrow> string) \<Rightarrow> response \<Rightarrow> error + searchProductsResult" where
  "searchProducts_reply parse numToString resp =
     (case parsePayload parse (resp_text resp) of
        Inl e \<Rightarrow> Inl e
      | Inr payload \<Rightarrow> handlePayload numToString resp payload)"

section \<open>Building the request\<close>

record appConfig =
  AWS_ACCESS_KEY_ID :: string
  AWS_SECRET_ACCESS_KEY :: string
  AMAZON_PARTNER_TAG :: string
  AMAZON_REGION :: string
  AMAZON_HOST :: string

text \<open>\<open>SearchProductsInput\<close>; its field \<open>keywords\<close> is \<open>search_keywords\<close> here.\<close>

record searchProductsInput =
  search_keywords :: string
  category :: "string option"
  minPrice :: "jsnum option"
  maxPrice :: "jsnum option"
  sortBy :: "string option"

record amazonSearchItemsRequest =
  Keywords :: string
  PartnerTag :: string
  PartnerType :: string
  Resources :: "string list"
  SearchIndex :: "string option"
  SortBy :: "string option"
  MinPrice :: "jsnum option"
  MaxPrice :: "jsnum option"

text \<open>
  \<open>buildRequestBody\<close>. \<open>if (input.category)\<close> and \<open>if (input.sortBy)\<close> skip an empty string
  as well as a missing one; \<open>typeof input.minPrice === 'number'\<close> lets every number through.
\<close>

definition buildRequestBody :: "appConfig \<Rightarrow> searchProductsInput \<Rightarrow> amazonSearchItemsRequest" where
  "buildRequestBody config input =
     \<lparr> Keywords = search_keywords input,
       PartnerTag = AMAZON_PARTNER_TAG config,
       PartnerType = ''Associates'',
       Resources = [''Images.Primary.Small'', ''Images.Primary.Medium'', ''ItemInfo.Title'',
                    ''ItemInfo.ByLineInfo'', ''Offers.Listings.Price'',
                    ''CustomerReviews.Count'', ''CustomerReviews.StarRating''],
       SearchIndex = (case category input of
                        None \<Rightarrow> None | Some c \<Rightarrow> if c \<noteq> [] then Some c else None),
       SortBy = (case sortBy input of
                   None \<Rightarrow> None | Some c \<Rightarrow> if c \<noteq> [] then Some c else None),
       MinPrice = map_option toSubUnits (minPrice input),
       MaxPrice = map_option toSubUnits (maxPrice input) \<rparr>"

section \<open>Signing the request\<close>

text \<open>
  The hash functions are those of \<open>node:crypto\<close>, and parameters here: \<open>SHA256\<close> maps the
  bytes of a text to the 32 bytes of its digest, \<open>HMAC key msg\<close> is the HMAC-SHA256 digest
  of \<open>msg\<close> under \<open>key\<close>.
\<close>

definition SERVICE :: string where
  "SERVICE = ''ProductAdvertisingAPI''"

definition TARGET :: string where
  "TARGET = ''com.amazon.paapi5.v1.ProductAdvertisingAPIv1.SearchItems''"

definition API_PATH :: string where
  "API_PATH = ''/paapi5/searchitems''"

definition NL :: string where
  "NL = [CHR 0x0A]"

definition hex_digit :: "nat \<Rightarrow> char" where
  "hex_digit n = ''0123456789abcdef'' ! n"

text \<open>\<open>digest('hex')\<close>: two lower-case digits for each byte.\<close>

definition hex :: "string \<Rightarrow> string" where
  "hex bs = concat (map (\<lambda>c. [hex_digit ((of_char c :: nat) div 16),
                              hex_digit ((of_char c :: nat) mod 16)]) bs)"

text \<open>The private method \<open>sha256\<close>.\<close>

definition sha256 :: "(string \<Rightarrow> string) \<Rightarrow> string \<Rightarrow> string" where
  "sha256 SHA256 v = hex (SHA256 v)"

text \<open>\<open>s.replace(/\.\d{3}Z$/, 'Z')\<close>: a final \<open>.\<close>, three digits and \<open>Z\<close> become \<open>Z\<close>.\<close>

definition strip_millis :: "string \<Rightarrow> string" where
  "strip_millis s =
     (case rev s of
        z # d3 # d2 # d1 # dot # r \<Rightarrow>
          if z = CHR ''Z'' \<and> is_digit d3 \<and> is_digit d2 \<and> is_digit d1 \<and> dot = CHR ''.''
          then rev r @ ''Z'' else s
      | _ \<Rightarrow> s)"

text \<open>
  \<open>createAmzDate\<close>, on the text \<open>date.toISOString()\<close> of the instant read from the clock:
  \<open>replace(/[:-]/g, '')\<close>, then the milliseconds are dropped.
\<close>

definition createAmzDate :: "string \<Rightarrow> string" where
  "createAmzDate isoString = strip_millis (filter (\<lambda>c. c \<noteq> CHR '':'' \<and> c \<noteq> CHR ''-'') isoString)"

definition deriveSigningKey ::
  "(string \<Rightarrow> string \<Rightarrow> string) \<Rightarrow> string \<Rightarrow> string \<Rightarrow> string \<Rightarrow> string" where
  "deriveSigningKey HMAC secretKey dateStamp region =
     (let kDate = HMAC (''AWS4'' @ secretKey) dateStamp;
          kRegion = HMAC kDate region;
          kService = HMAC kRegion SERVICE
      in HMAC kService ''aws4_request'')"

record signedRequest =
  endpoint :: string
  headers :: "(string \<times> string) list"

text \<open>
  What a run can read from the engine beside its arguments and its configuration: the
  clock, as the text \<open>new Date().toISOString()\<close> of the instant it shows, and the random
  source of \<open>node:crypto\<close>, which the client imports whole.
\<close>

record runtime =
  clock :: string
  randomBytes :: "nat \<Rightarrow> string"

text \<open>
  \<open>buildSignedRequest\<close>. It reads the clock once, for \<open>amzDate\<close>, and the random source
  never. The header object is kept as the list of its entries, in the order of the source.
\<close>

definition buildSignedRequest ::
  "(string \<Rightarrow> string) \<Rightarrow> (string \<Rightarrow> string \<Rightarrow> string) \<Rightarrow> appConfig \<Rightarrow> runtime \<Rightarrow> string
     \<Rightarrow> signedRequest" where
  "buildSignedRequest SHA256 HMAC config rt body =
     (let host = AMAZON_HOST config;
          region = AMAZON_REGION config;
          accessKey = AWS_ACCESS_KEY_ID config;
          secretKey = AWS_SECRET_ACCESS_KEY config;
          amzDate = createAmzDate (clock rt);
          dateStamp = take 8 amzDate;
          canonicalHeadersList =
            [(''content-encoding'', ''amz-1.0''),
             (''content-type'', ''application/json; charset=UTF-8''),
             (''host'', host),
             (''x-amz-date'', amzDate),
             (''x-amz-target'', TARGET)];
          canonicalHeaders =
            join [] (map (\<lambda>(key, v). key @ '':'' @ v @ NL) canonicalHeadersList);
          signedHeaders = join '';'' (map fst canonicalHeadersList);
          payloadHash = sha256 SHA256 body;
          canonicalRequest =
            join NL [''POST'', API_PATH, [], canonicalHeaders, signedHeaders, payloadHash];
          credentialScope = dateStamp @ ''/'' @ region @ ''/'' @ SERVICE @ ''/aws4_request'';
          stringToSign =
            join NL [''AWS4-HMAC-SHA256'', amzDate, credentialScope,
                     sha256 SHA256 canonicalRequest];
          signingKey = deriveSigningKey HMAC secretKey dateStamp region;
          signature = hex (HMAC signingKey stringToSign);
          authorizationHeader =
            ''AWS4-HMAC-SHA256 Credential='' @ accessKey @ ''/'' @ credentialScope @ '', '' @
            ''SignedHeaders='' @ signedHeaders @ '', Signature='' @ signature
      in \<lparr> endpoint = ''https://'' @ host @ API_PATH,
           headers = [(''Content-Encoding'', ''amz-1.0''),
                      (''Content-Type'', ''application/json; charset=UTF-8''),
                      (''X-Amz-Date'', amzDate),
                      (''X-Amz-Target'', TARGET),
                      (''Authorization'', authorizationHeader),
                      (''Accept'', ''application/json'')] \<rparr>)"

text \<open>The value of a header of the signed request.\<close>

definition header :: "signedRequest \<Rightarrow> string \<Rightarrow> string option" where
  "header req name = map_of (headers req) name"

subsection \<open>The signing algorithm as the specification words it\<close>

text \<open>
  Steps 2 to 9 of the specification's signing protocol, written out from its words, for a
  time stamp \<open>ts\<close> and its date stamp (the first eight characters): the header block in its
  fixed order, the content hash, the canonical request, the credential scope, the string to
  sign, the four chained keyed hashes, the signature and the header value.
\<close>

definition reference_canonical_headers :: "string \<Rightarrow> string \<Rightarrow> string" where
  "reference_canonical_headers host ts =
     ''content-encoding:amz-1.0'' @ NL @
     ''content-type:application/json; charset=UTF-8'' @ NL @
     ''host:'' @ host @ NL @
     ''x-amz-date:'' @ ts @ NL @
     ''x-amz-target:com.amazon.paapi5.v1.ProductAdvertisingAPIv1.SearchItems'' @ NL"

definition reference_signed_headers :: string where
  "reference_signed_headers = ''content-encoding;content-type;host;x-amz-date;x-amz-target''"

definition reference_canonical_request ::
  "(string \<Rightarrow> string) \<Rightarrow> string \<Rightarrow> string \<Rightarrow> string \<Rightarrow> string" where
  "reference_canonical_request SHA256 host ts body =
     ''POST'' @ NL @
     ''/paapi5/searchitems'' @ NL @
     NL @
     reference_canonical_headers host ts @ NL @
     reference_signed_headers @ NL @
     hex (SHA256 body)"

definition reference_scope :: "string \<Rightarrow> string \<Rightarrow> string \<Rightarrow> string" where
  "reference_scope dateStamp region serviceName =
     dateStamp @ ''/'' @ region @ ''/'' @ serviceName @ ''/aws4_request''"

definition reference_string_to_sign ::
  "(string \<Rightarrow> string) \<Rightarrow> string \<Rightarrow> string \<Rightarrow> string \<Rightarrow> string \<Rightarrow> string" where
  "reference_string_to_sign SHA256 host region ts body =
     ''AWS4-HMAC-SHA256'' @ NL @
     ts @ NL @
     reference_scope (take 8 ts) region ''ProductAdvertisingAPI'' @ NL @
     hex (SHA256 (reference_canonical_request SHA256 host ts body))"

definition reference_signing_key ::
  "(string \<Rightarrow> string \<Rightarrow> string) \<Rightarrow> string \<Rightarrow> string \<Rightarrow> string \<Rightarrow> string \<Rightarrow> string" where
  "reference_signing_key HMAC secretKey dateStamp region serviceName =
     HMAC (HMAC (HMAC (HMAC (''AWS4'' @ secretKey) dateStamp) region) serviceName)
          ''aws4_request''"

definition reference_authorization ::
  "(string \<Rightarrow> string) \<Rightarrow> (string \<Rightarrow> string \<Rightarrow> string)
     \<Rightarrow> string \<Rightarrow> string \<Rightarrow> string \<Rightarrow> string \<Rightarrow> string \<Rightarrow> string \<Rightarrow> string" where
  "reference_authorization SHA256 HMAC accessKey secretKey region host ts body =
     ''AWS4-HMAC-SHA256 Credential='' @ accessKey @ ''/'' @
       reference_scope (take 8 ts) region ''ProductAdvertisingAPI'' @
     '', SignedHeaders='' @ reference_signed_headers @
     '', Signature='' @
       hex (HMAC (reference_signing_key HMAC secretKey (take 8 ts) region ''ProductAdvertisingAPI'')
                 (reference_string_to_sign SHA256 host region ts body))"

section \<open>Notions for stating the properties\<close>

text \<open>
  A value that can be converted to text: every value but an object with an own member
  named \<open>toString\<close>, and an array that holds one. An entry of an error list that the
  formatter can print: not \<open>null\<close>, with a code and a message that can be converted to
  text. The entries of an error list. An error list the formatter can walk: an array of
  entries it can print, or any value without a truthy \<open>length\<close>. The text of a value that
  can be converted, the text the formatter gives an entry, the text the specification
  words for it, and a field that is a string or is missing.
\<close>

fun hasText :: "jsval \<Rightarrow> bool" and hasTextList :: "jsval list \<Rightarrow> bool" where
  "hasText JUndefined = True"
| "hasText JNull = True"
| "hasText (JBool b) = True"
| "hasText (JNum n) = True"
| "hasText (JStr s) = True"
| "hasText (JArr xs) = hasTextList xs"
| "hasText (JObj kvs) = (map_of kvs ''toString'' = None)"
| "hasTextList [] = True"
| "hasTextList (x # xs) = ((nullish x \<or> hasText x) \<and> hasTextList xs)"

definition entryOk :: "jsval \<Rightarrow> bool" where
  "entryOk entry =
     (\<not> nullish entry \<and> hasText (member entry ''Code'') \<and> hasText (member entry ''Message''))"

definition errorList :: "jsval \<Rightarrow> jsval list" where
  "errorList errs = (case errs of JArr es \<Rightarrow> es | _ \<Rightarrow> [])"

definition wellFormedErrors :: "jsval \<Rightarrow> bool" where
  "wellFormedErrors errs =
     (case errs of
        JArr es \<Rightarrow> list_all entryOk es
      | _ \<Rightarrow> \<not> truthy (optProp errs ''length''))"

definition textOf :: "(jsnum \<Rightarrow> string) \<Rightarrow> jsval \<Rightarrow> string" where
  "textOf numToString v = (case ToString numToString v of Inr s \<Rightarrow> s | Inl e \<Rightarrow> [])"

definition errorText :: "(jsnum \<Rightarrow> string) \<Rightarrow> jsval \<Rightarrow> string" where
  "errorText numToString entry =
     textOf numToString (coalesce (member entry ''Code'') (JStr ''UnknownCode'')) @ '': '' @
     textOf numToString
       (coalesce (member entry ''Message'')
                 (JStr ''Unknown error from Amazon Product Advertising API''))"

definition specErrorText :: "jsval \<Rightarrow> string" where
  "specErrorText entry =
     (case member entry ''Code'' of JStr c \<Rightarrow> c | _ \<Rightarrow> ''UnknownCode'') @ '': '' @
     (case member entry ''Message'' of
        JStr m \<Rightarrow> m
      | _ \<Rightarrow> ''Unknown error from Amazon Product Advertising API'')"

definition textOrMissing :: "jsval \<Rightarrow> bool" where
  "textOrMissing v = (case v of JStr _ \<Rightarrow> True | _ \<Rightarrow> nullish v)"

text \<open>A rating within the range of the data model, from 0 to 5.\<close>

definition ratingInRange :: "jsnum \<Rightarrow> bool" where
  "ratingInRange r = (case r of Fin q \<Rightarrow> 0 \<le> q \<and> q \<le> 5 | _ \<Rightarrow> False)"

section \<open>Evaluating the rounding\<close>

lemma pow2_pos: "0 < pow2 e"
  by (simp add: pow2_def)

lemma bitlen_unique:
  assumes "(2::int) ^ k \<le> n" and "n < 2 ^ Suc k"
  shows "bitlen n = int k + 1"
proof -
  have npos: "0 < n" using assms(1) by (smt (verit) zero_less_power)
  from bitlen_bounds [OF npos]
  have lo: "2 ^ nat (bitlen n - 1) \<le> n" and hi: "n < 2 ^ nat (bitlen n)" by simp_all
  have b1: "1 \<le> bitlen n" using npos by (simp add: bitlen_alt_def)
  from assms(1) hi have "(2::int) ^ k < 2 ^ nat (bitlen n)" by linarith
  then have a: "k < nat (bitlen n)" by simp
  from lo assms(2) have "(2::int) ^ nat (bitlen n - 1) < 2 ^ Suc k" by linarith
  then have b: "nat (bitlen n - 1) < Suc k" by (rule power_less_imp_less_exp [rotated]) simp
  from a b b1 show ?thesis by linarith
qed

text \<open>\<open>ilog2\<close> finds the binary exponent: the one \<open>e\<close> with \<open>2^e \<le> a < 2^(e+1)\<close>.\<close>

lemma ilog2_unique:
  assumes lo: "pow2 e \<le> a" and hi: "a < pow2 (e + 1)"
  shows "ilog2 a = e"
proof (cases "1 \<le> a")
  case True
  have e0: "0 \<le> e"
  proof (rule ccontr)
    assume "\<not> 0 \<le> e"
    then have "e + 1 \<le> 0" by simp
    then have "pow2 (e + 1) \<le> 1"
      by (cases "e + 1 = 0") (simp_all add: pow2_def divide_le_eq_1)
    with hi True show False by simp
  qed
  define k where "k = nat e"
  have ek: "e = int k" using e0 by (simp add: k_def)
  from lo have "(of_int (2 ^ k) :: rat) \<le> a" by (simp add: pow2_def ek)
  then have l: "(2::int) ^ k \<le> \<lfloor>a\<rfloor>" by (simp only: le_floor_iff)
  from hi have "a < (of_int (2 ^ Suc k) :: rat)"
    by (simp add: pow2_def ek nat_add_distrib)
  then have h: "\<lfloor>a\<rfloor> < (2::int) ^ Suc k" by (simp only: floor_less_iff)
  from bitlen_unique [OF l h] True show ?thesis by (simp add: ilog2_def ek)
next
  case False
  then have a1: "a < 1" by simp
  have apos: "0 < a" using lo pow2_pos [of e] by linarith
  have e0: "e < 0"
  proof (rule ccontr)
    assume "\<not> e < 0"
    then have "1 \<le> pow2 e" by (simp add: pow2_def)
    with lo a1 show False by simp
  qed
  define k where "k = nat (- e - 1)"
  have ek: "e = - int k - 1" using e0 by (simp add: k_def)
  have lo': "1 / 2 ^ Suc k \<le> a" using lo by (simp add: pow2_def ek nat_add_distrib)
  have hi': "a < 1 / 2 ^ k" using hi
    by (cases "k = 0") (simp_all add: pow2_def ek)
  from lo' apos have u: "1 / a \<le> 2 ^ Suc k"
    by (simp add: field_simps)
  from hi' apos have v: "2 ^ k < 1 / a"
    by (simp add: field_simps)
  from u have "1 / a \<le> of_int (2 ^ Suc k)" by simp
  then have c1: "\<lceil>1 / a\<rceil> \<le> 2 ^ Suc k" by (simp only: ceiling_le_iff)
  from v have "of_int (2 ^ k) < 1 / a" by simp
  then have c2: "2 ^ k < \<lceil>1 / a\<rceil>" by (simp only: less_ceiling_iff)
  have l: "(2::int) ^ k \<le> \<lceil>1 / a\<rceil> - 1" using c2 by simp
  have h: "\<lceil>1 / a\<rceil> - 1 < (2::int) ^ Suc k" using c1 by simp
  from bitlen_unique [OF l h] False show ?thesis by (simp add: ilog2_def ek)
qed

text \<open>The rounding of a value in the normal range, from its binary exponent.\<close>

lemma fl64_normal:
  assumes "q \<noteq> 0" and "pow2 e \<le> \<bar>q\<bar>" and "\<bar>q\<bar> < pow2 (e + 1)" and "- 1022 \<le> e"
  shows "fl64 q =
    (let r = of_int (round_half_even (\<bar>q\<bar> / pow2 (e - 52))) * pow2 (e - 52)
     in if pow2 1024 \<le> r then (if 0 < q then PInf else NInf)
        else Fin (if 0 < q then r else - r))"
proof -
  have m: "max (ilog2 \<bar>q\<bar>) (- 1022) = e"
    using ilog2_unique [OF assms(2,3)] assms(4) by simp
  show ?thesis
    unfolding fl64_def Let_def m using assms(1) by (simp only: if_False)
qed

lemma floor_rat_divide_numeral:
  "\<lfloor>(numeral a / numeral b :: rat)\<rfloor> = numeral a div numeral b"
  by (metis floor_divide_of_int_eq of_int_numeral)

lemmas fl64_eval = pow2_def round_half_even_def Let_def floor_rat_divide_numeral

text \<open>The binary64 values of \<open>19.999\<close>, \<open>12.34\<close> and \<open>1e307\<close>, and their hundredfold.\<close>

lemma fl64_19_999: "fl64 (19999 / 1000) = Fin (5629218059236409 / 281474976710656)"
  by (subst fl64_normal [where e = 4]) (simp_all add: fl64_eval)

lemma js_mul_19_999:
  "js_mul (Fin (5629218059236409 / 281474976710656)) (Fin 100) =
   Fin (8795653217556889 / 4398046511104)"
  by (simp, subst fl64_normal [where e = 10]) (simp_all add: fl64_eval)

lemma fl64_12_34: "fl64 (1234 / 100) = Fin (6946802425218990 / 562949953421312)"
  by (subst fl64_normal [where e = 3]) (simp_all add: fl64_eval)

lemma js_mul_12_34:
  "js_mul (Fin (6946802425218990 / 562949953421312)) (Fin 100) = Fin 1234"
  by (simp, subst fl64_normal [where e = 10]) (simp_all add: fl64_eval)

lemma fl64_1e307: "fl64 (10 ^ 307) = Fin (8016673440035891 * 2 ^ 967)"
  by (subst fl64_normal [where e = 1019]) (simp_all add: fl64_eval)

lemma js_mul_1e307: "js_mul (Fin (8016673440035891 * 2 ^ 967)) (Fin 100) = PInf"
  by (simp, subst fl64_normal [where e = 1026]) (simp_all add: fl64_eval)

section \<open>Properties of the price filters\<close>

lemma toSubUnits_Fin:
  "js_mul v (Fin 100) = Fin p \<Longrightarrow> toSubUnits v = Fin (of_int (max 0 \<lfloor>p + 1 / 2\<rfloor>))"
  by (simp add: toSubUnits_def max_def)

lemma nonneg_integer_of_int: "0 \<le> n \<Longrightarrow> nonneg_integer (Fin (of_int n))"
  by simp

lemma toSubUnits_19_999: "toSubUnits (fl64 (19999 / 1000)) = Fin 2000"
  by (simp only: toSubUnits_def fl64_19_999 js_mul_19_999) (simp add: floor_rat_divide_numeral)

lemma toSubUnits_12_34: "toSubUnits (fl64 (1234 / 100)) = Fin 1234"
  by (simp only: toSubUnits_def fl64_12_34 js_mul_12_34) (simp add: floor_rat_divide_numeral)

lemma toSubUnits_1e307: "toSubUnits (fl64 (10 ^ 307)) = PInf"
  by (simp only: toSubUnits_def fl64_1e307 js_mul_1e307) simp

text \<open>
  C3, as the code has it. \<open>toSubUnits\<close> computes \<open>Math.max(0, Math.round(value * 100))\<close> in
  binary64 arithmetic; \<open>minorUnits(19.999)\<close> is \<open>2000\<close>, \<open>minorUnits(-5)\<close> and \<open>minorUnits(0)\<close>
  are \<open>0\<close>. The result is a non-negative integer whenever the product \<open>value * 100\<close> is
  finite. When the product is \<open>+Infinity\<close> (an infinite amount, or a finite one whose
  hundredfold overflows) the result is \<open>Infinity\<close>, when it is \<open>-Infinity\<close> the result is
  \<open>0\<close>, and when it is NaN the result is NaN.
\<close>

theorem toSubUnits_minor_units:
  "toSubUnits v = Math_max (Fin 0) (Math_round (js_mul v (Fin 100)))
   \<and> toSubUnits (fl64 (19999 / 1000)) = Fin 2000
   \<and> toSubUnits (Fin (- 5)) = Fin 0
   \<and> toSubUnits (Fin 0) = Fin 0
   \<and> (isFinite (js_mul v (Fin 100)) \<longrightarrow> nonneg_integer (toSubUnits v))
   \<and> (js_mul v (Fin 100) = PInf \<longrightarrow> toSubUnits v = PInf)
   \<and> (js_mul v (Fin 100) = NInf \<longrightarrow> toSubUnits v = Fin 0)
   \<and> (js_mul v (Fin 100) = NaN \<longrightarrow> toSubUnits v = NaN)"
proof -
  have m5: "js_mul (Fin (- 5)) (Fin 100) = Fin (- 500)"
    by (simp, subst fl64_normal [where e = 8]) (simp_all add: fl64_eval)
  have b: "toSubUnits (Fin (- 5)) = Fin 0"
    by (simp only: toSubUnits_def m5) simp
  have c: "toSubUnits (Fin 0) = Fin 0"
    by (simp add: toSubUnits_def fl64_def)
  have d: "isFinite (js_mul v (Fin 100)) \<longrightarrow> nonneg_integer (toSubUnits v)"
  proof
    assume "isFinite (js_mul v (Fin 100))"
    then obtain p where p: "js_mul v (Fin 100) = Fin p"
      by (cases "js_mul v (Fin 100)") simp_all
    show "nonneg_integer (toSubUnits v)"
      unfolding toSubUnits_Fin [OF p] by (rule nonneg_integer_of_int) simp
  qed
  have e: "js_mul v (Fin 100) = PInf \<longrightarrow> toSubUnits v = PInf"
    by (simp add: toSubUnits_def)
  have f: "js_mul v (Fin 100) = NInf \<longrightarrow> toSubUnits v = Fin 0"
    by (simp add: toSubUnits_def)
  have g: "js_mul v (Fin 100) = NaN \<longrightarrow> toSubUnits v = NaN"
    by (simp add: toSubUnits_def)
  show ?thesis
    by (intro conjI) (rule toSubUnits_def toSubUnits_19_999 b c d e f g)+
qed

text \<open>
  The theorem at the amount \<open>12.34\<close> of the repository's test, where the product is the
  finite number \<open>1234\<close>, and at the three values that are not finite.
\<close>

theorem toSubUnits_minor_units_witness:
  "isFinite (js_mul (fl64 (1234 / 100)) (Fin 100))
   \<and> toSubUnits (fl64 (1234 / 100)) = Fin 1234
   \<and> nonneg_integer (toSubUnits (fl64 (1234 / 100)))
   \<and> js_mul PInf (Fin 100) = PInf \<and> toSubUnits PInf = PInf
   \<and> js_mul NInf (Fin 100) = NInf \<and> toSubUnits NInf = Fin 0
   \<and> js_mul NaN (Fin 100) = NaN \<and> toSubUnits NaN = NaN"
proof -
  have f: "isFinite (js_mul (fl64 (1234 / 100)) (Fin 100))"
    by (simp only: fl64_12_34 js_mul_12_34) simp
  have p: "js_mul PInf (Fin 100) = PInf" by simp
  have n: "js_mul NInf (Fin 100) = NInf" by simp
  have q: "js_mul NaN (Fin 100) = NaN" by simp
  have i: "nonneg_integer (toSubUnits (fl64 (1234 / 100)))"
    using f toSubUnits_minor_units [of "fl64 (1234 / 100)"] by blast
  have p': "toSubUnits PInf = PInf"
    using p toSubUnits_minor_units [of PInf] by blast
  have n': "toSubUnits NInf = Fin 0"
    using n toSubUnits_minor_units [of NInf] by blast
  have q': "toSubUnits NaN = NaN"
    using q toSubUnits_minor_units [of NaN] by blast
  from f toSubUnits_12_34 i p p' n n' q q' show ?thesis
    by blast
qed

text \<open>
  C3 as stated fails: the amount \<open>1e307\<close> is a finite, non-negative number, its hundredfold
  overflows, and the filter that is sent is \<open>Infinity\<close>, which is no integer.
\<close>

theorem toSubUnits_overflow_counterexample:
  "toSubUnits (fl64 (10 ^ 307)) = PInf \<and> \<not> nonneg_integer (toSubUnits (fl64 (10 ^ 307)))"
  by (simp only: toSubUnits_1e307) simp

lemma buildRequestBody_prices:
  "MinPrice (buildRequestBody config input) = map_option toSubUnits (minPrice input)
   \<and> MaxPrice (buildRequestBody config input) = map_option toSubUnits (maxPrice input)"
  by (simp add: buildRequestBody_def)

section \<open>Properties of the signature\<close>

lemma createAmzDate_example: "createAmzDate ''2024-01-02T03:04:05.000Z'' = ''20240102T030405Z''"
  by (simp add: createAmzDate_def strip_millis_def is_digit_def)

lemma canonical_headers_eq:
  "join [] (map (\<lambda>(key, v). key @ '':'' @ v @ NL)
      [(''content-encoding'', ''amz-1.0''),
       (''content-type'', ''application/json; charset=UTF-8''),
       (''host'', host), (''x-amz-date'', ts), (''x-amz-target'', TARGET)])
   = reference_canonical_headers host ts"
  by (simp add: reference_canonical_headers_def TARGET_def)

lemma signed_headers_eq:
  "join '';'' (map fst
      [(''content-encoding'', ''amz-1.0''),
       (''content-type'', ''application/json; charset=UTF-8''),
       (''host'', host), (''x-amz-date'', ts), (''x-amz-target'', TARGET)])
   = reference_signed_headers"
  by (simp add: reference_signed_headers_def)

lemma deriveSigningKey_eq:
  "deriveSigningKey HMAC secretKey dateStamp region =
   reference_signing_key HMAC secretKey dateStamp region ''ProductAdvertisingAPI''"
  by (simp add: deriveSigningKey_def reference_signing_key_def SERVICE_def Let_def)

lemma header_authorization:
  "header (buildSignedRequest SHA256 HMAC config rt body) ''Authorization'' =
   Some (reference_authorization SHA256 HMAC (AWS_ACCESS_KEY_ID config)
           (AWS_SECRET_ACCESS_KEY config) (AMAZON_REGION config) (AMAZON_HOST config)
           (createAmzDate (clock rt)) body)"
  unfolding buildSignedRequest_def Let_def canonical_headers_eq signed_headers_eq
    deriveSigningKey_eq header_def
  by (simp add: reference_authorization_def reference_string_to_sign_def
      reference_canonical_request_def reference_scope_def sha256_def SERVICE_def API_PATH_def)

lemma header_date:
  "header (buildSignedRequest SHA256 HMAC config rt body) ''X-Amz-Date'' =
   Some (createAmzDate (clock rt))"
  by (simp add: buildSignedRequest_def header_def Let_def)

lemma buildSignedRequest_inputs:
  assumes "AWS_ACCESS_KEY_ID c1 = AWS_ACCESS_KEY_ID c2"
    and "AWS_SECRET_ACCESS_KEY c1 = AWS_SECRET_ACCESS_KEY c2"
    and "AMAZON_REGION c1 = AMAZON_REGION c2"
    and "AMAZON_HOST c1 = AMAZON_HOST c2"
    and "clock rt1 = clock rt2"
  shows "buildSignedRequest SHA256 HMAC c1 rt1 body = buildSignedRequest SHA256 HMAC c2 rt2 body"
  using assms by (simp add: buildSignedRequest_def)

text \<open>
  C1. The \<open>Authorization\<close> header that \<open>buildSignedRequest\<close> produces is the one of the
  signing algorithm as the specification words it, for every body, configuration, reading
  of the clock and pair of hash functions; and that value is the literal text of the claim
  around the access key, the date stamp, the region, the service name and the hexadecimal
  keyed hash of the string to sign under the four times chained key.
\<close>

theorem buildSignedRequest_authorization:
  "header (buildSignedRequest SHA256 HMAC config rt body) ''Authorization'' =
     Some (reference_authorization SHA256 HMAC (AWS_ACCESS_KEY_ID config)
             (AWS_SECRET_ACCESS_KEY config) (AMAZON_REGION config) (AMAZON_HOST config)
             (createAmzDate (clock rt)) body)
   \<and> reference_authorization SHA256 HMAC accessKey secretKey region host ts body =
       ''AWS4-HMAC-SHA256 Credential='' @ accessKey @ ''/'' @ take 8 ts @ ''/'' @ region @
       ''/ProductAdvertisingAPI/aws4_request, '' @
       ''SignedHeaders=content-encoding;content-type;host;x-amz-date;x-amz-target, '' @
       ''Signature='' @
       hex (HMAC (HMAC (HMAC (HMAC (HMAC (''AWS4'' @ secretKey) (take 8 ts)) region)
                         ''ProductAdvertisingAPI'') ''aws4_request'')
                 (reference_string_to_sign SHA256 host region ts body))"
  by (simp add: header_authorization)
     (simp add: reference_authorization_def reference_scope_def reference_signed_headers_def
        reference_signing_key_def)

text \<open>
  C2. Take two runs of the signing step whose configurations agree on the access key,
  the secret key, the region and the host, with the same body, and whose clocks show the
  same instant; everything else may differ between them, the partner tag and whatever
  their random sources would give. Both runs produce an \<open>Authorization\<close> and an
  \<open>X-Amz-Date\<close> header, the same values in both: the date header is the time stamp of the
  common clock reading, the authorization is the signature over the common inputs. The
  signed requests are equal altogether, so nothing random and no nonce enters them.
\<close>

theorem signing_deterministic:
  assumes "AWS_ACCESS_KEY_ID c1 = AWS_ACCESS_KEY_ID c2"
    and "AWS_SECRET_ACCESS_KEY c1 = AWS_SECRET_ACCESS_KEY c2"
    and "AMAZON_REGION c1 = AMAZON_REGION c2"
    and "AMAZON_HOST c1 = AMAZON_HOST c2"
    and "clock rt1 = clock rt2"
  shows "header (buildSignedRequest SHA256 HMAC c1 rt1 body) ''Authorization'' =
           Some (reference_authorization SHA256 HMAC (AWS_ACCESS_KEY_ID c1)
                   (AWS_SECRET_ACCESS_KEY c1) (AMAZON_REGION c1) (AMAZON_HOST c1)
                   (createAmzDate (clock rt1)) body)
       \<and> header (buildSignedRequest SHA256 HMAC c2 rt2 body) ''Authorization'' =
           Some (reference_authorization SHA256 HMAC (AWS_ACCESS_KEY_ID c1)
                   (AWS_SECRET_ACCESS_KEY c1) (AMAZON_REGION c1) (AMAZON_HOST c1)
                   (createAmzDate (clock rt1)) body)
       \<and> header (buildSignedRequest SHA256 HMAC c1 rt1 body) ''X-Amz-Date'' =
           Some (createAmzDate (clock rt1))
       \<and> header (buildSignedRequest SHA256 HMAC c2 rt2 body) ''X-Amz-Date'' =
           Some (createAmzDate (clock rt1))
       \<and> buildSignedRequest SHA256 HMAC c1 rt1 body =
           buildSignedRequest SHA256 HMAC c2 rt2 body"
  using assms buildSignedRequest_inputs [OF assms, of SHA256 HMAC body]
  by (simp add: header_authorization header_date)

text \<open>
  The theorem at the configuration of the repository's test and at one that differs from
  it in the partner tag, for the body \<open>{}\<close> at the instant of the test, under two random
  sources that differ.
\<close>

theorem signing_deterministic_witness:
  "AWS_ACCESS_KEY_ID
     \<lparr> AWS_ACCESS_KEY_ID = ''AKIATESTKEY12345'', AWS_SECRET_ACCESS_KEY = ''test-secret-key'',
       AMAZON_PARTNER_TAG = ''test-partner'', AMAZON_REGION = ''us-east-1'',
       AMAZON_HOST = ''webservices.amazon.com'' \<rparr> =
   AWS_ACCESS_KEY_ID
     \<lparr> AWS_ACCESS_KEY_ID = ''AKIATESTKEY12345'', AWS_SECRET_ACCESS_KEY = ''test-secret-key'',
       AMAZON_PARTNER_TAG = ''other-partner'', AMAZON_REGION = ''us-east-1'',
       AMAZON_HOST = ''webservices.amazon.com'' \<rparr>
   \<and> clock \<lparr> clock = ''2024-01-02T03:04:05.000Z'', randomBytes = (\<lambda>n. replicate n (CHR ''a'')) \<rparr> =
     clock \<lparr> clock = ''2024-01-02T03:04:05.000Z'', randomBytes = (\<lambda>n. replicate n (CHR ''b'')) \<rparr>
   \<and> randomBytes
       \<lparr> clock = ''2024-01-02T03:04:05.000Z'', randomBytes = (\<lambda>n. replicate n (CHR ''a'')) \<rparr> 1 \<noteq>
     randomBytes
       \<lparr> clock = ''2024-01-02T03:04:05.000Z'', randomBytes = (\<lambda>n. replicate n (CHR ''b'')) \<rparr> 1
   \<and> (\<forall>SHA256 HMAC.
        header (buildSignedRequest SHA256 HMAC
          \<lparr> AWS_ACCESS_KEY_ID = ''AKIATESTKEY12345'', AWS_SECRET_ACCESS_KEY = ''test-secret-key'',
            AMAZON_PARTNER_TAG = ''test-partner'', AMAZON_REGION = ''us-east-1'',
            AMAZON_HOST = ''webservices.amazon.com'' \<rparr>
          \<lparr> clock = ''2024-01-02T03:04:05.000Z'', randomBytes = (\<lambda>n. replicate n (CHR ''a'')) \<rparr>
          ''{}'') ''X-Amz-Date'' = Some ''20240102T030405Z''
        \<and> header (buildSignedRequest SHA256 HMAC
          \<lparr> AWS_ACCESS_KEY_ID = ''AKIATESTKEY12345'', AWS_SECRET_ACCESS_KEY = ''test-secret-key'',
            AMAZON_PARTNER_TAG = ''other-partner'', AMAZON_REGION = ''us-east-1'',
            AMAZON_HOST = ''webservices.amazon.com'' \<rparr>
          \<lparr> clock = ''2024-01-02T03:04:05.000Z'', randomBytes = (\<lambda>n. replicate n (CHR ''b'')) \<rparr>
          ''{}'') ''X-Amz-Date'' = Some ''20240102T030405Z''
        \<and> header (buildSignedRequest SHA256 HMAC
          \<lparr> AWS_ACCESS_KEY_ID = ''AKIATESTKEY12345'', AWS_SECRET_ACCESS_KEY = ''test-secret-key'',
            AMAZON_PARTNER_TAG = ''other-partner'', AMAZON_REGION = ''us-east-1'',
            AMAZON_HOST = ''webservices.amazon.com'' \<rparr>
          \<lparr> clock = ''2024-01-02T03:04:05.000Z'', randomBytes = (\<lambda>n. replicate n (CHR ''b'')) \<rparr>
          ''{}'') ''Authorization'' =
          Some (reference_authorization SHA256 HMAC ''AKIATESTKEY12345'' ''test-secret-key''
                  ''us-east-1'' ''webservices.amazon.com'' ''20240102T030405Z'' ''{}''))"
proof -
  let ?c1 = "\<lparr> AWS_ACCESS_KEY_ID = ''AKIATESTKEY12345'',
               AWS_SECRET_ACCESS_KEY = ''test-secret-key'',
               AMAZON_PARTNER_TAG = ''test-partner'', AMAZON_REGION = ''us-east-1'',
               AMAZON_HOST = ''webservices.amazon.com'' \<rparr>"
  let ?c2 = "\<lparr> AWS_ACCESS_KEY_ID = ''AKIATESTKEY12345'',
               AWS_SECRET_ACCESS_KEY = ''test-secret-key'',
               AMAZON_PARTNER_TAG = ''other-partner'', AMAZON_REGION = ''us-east-1'',
               AMAZON_HOST = ''webservices.amazon.com'' \<rparr>"
  let ?r1 = "\<lparr> clock = ''2024-01-02T03:04:05.000Z'',
               randomBytes = (\<lambda>n. replicate n (CHR ''a'')) \<rparr>"
  let ?r2 = "\<lparr> clock = ''2024-01-02T03:04:05.000Z'',
               randomBytes = (\<lambda>n. replicate n (CHR ''b'')) \<rparr>"
  have a: "AWS_ACCESS_KEY_ID ?c1 = AWS_ACCESS_KEY_ID ?c2" by simp
  have b: "AWS_SECRET_ACCESS_KEY ?c1 = AWS_SECRET_ACCESS_KEY ?c2" by simp
  have c: "AMAZON_REGION ?c1 = AMAZON_REGION ?c2" by simp
  have d: "AMAZON_HOST ?c1 = AMAZON_HOST ?c2" by simp
  have t: "clock ?r1 = clock ?r2" by simp
  have r: "randomBytes ?r1 1 \<noteq> randomBytes ?r2 1" by simp
  have h: "header (buildSignedRequest SHA256 HMAC ?c1 ?r1 ''{}'') ''X-Amz-Date'' =
             Some ''20240102T030405Z''
        \<and> header (buildSignedRequest SHA256 HMAC ?c2 ?r2 ''{}'') ''X-Amz-Date'' =
             Some ''20240102T030405Z''
        \<and> header (buildSignedRequest SHA256 HMAC ?c2 ?r2 ''{}'') ''Authorization'' =
          Some (reference_authorization SHA256 HMAC ''AKIATESTKEY12345'' ''test-secret-key''
                  ''us-east-1'' ''webservices.amazon.com'' ''20240102T030405Z'' ''{}'')"
    for SHA256 HMAC
    using signing_deterministic [OF a b c d t, of SHA256 HMAC "''{}''"]
    by (simp add: createAmzDate_example)
  from a t r h show ?thesis by blast
qed

section \<open>Properties of the reply handling\<close>

lemma getProp_nullish: "nullish v \<Longrightarrow> getProp v p = Inl TypeError"
  by (simp add: getProp_def)

lemma getProp_member: "\<not> nullish v \<Longrightarrow> getProp v p = Inr (member v p)"
  by (simp add: getProp_def)

lemma optProp_nullish: "nullish v \<Longrightarrow> optProp v p = JUndefined"
  by (simp add: optProp_def)

lemma optProp_member: "\<not> nullish v \<Longrightarrow> optProp v p = member v p"
  by (simp add: optProp_def)

lemma truthy_not_nullish: "truthy v \<Longrightarrow> \<not> nullish v"
  by (cases v) simp_all

lemma normalizeItem_nullish: "nullish item \<Longrightarrow> normalizeItem item = Inl TypeError"
  by (simp add: normalizeItem_def getProp_nullish)

lemma normalizeItem_Inr:
  "\<not> nullish item \<Longrightarrow> \<exists>ps. normalizeItem item = Inr ps"
  by (simp add: normalizeItem_def getProp_member Let_def)

lemma normalizeItem_Inl: "normalizeItem item = Inl e \<Longrightarrow> e = TypeError \<and> nullish item"
  by (cases "nullish item") (auto simp: normalizeItem_nullish dest: normalizeItem_Inr)

lemma mapM_Inr_iff:
  "mapM f xs = Inr ys \<longleftrightarrow> list_all2 (\<lambda>x y. f x = Inr y) xs ys"
proof (induction xs arbitrary: ys)
  case Nil
  show ?case by auto
next
  case (Cons x xs)
  show ?case
  proof (cases "f x")
    case (Inl e)
    then show ?thesis by (auto simp: list_all2_Cons1)
  next
    case (Inr y)
    show ?thesis
    proof (cases "mapM f xs")
      case (Inl e)
      with Inr Cons.IH show ?thesis by (auto simp: list_all2_Cons1)
    next
      case r: (Inr zs)
      with Inr Cons.IH show ?thesis by (auto simp: list_all2_Cons1)
    qed
  qed
qed

lemma mapM_Inl:
  "mapM f xs = Inl e \<Longrightarrow> \<exists>x \<in> set xs. f x = Inl e"
proof (induction xs)
  case Nil
  then show ?case by simp
next
  case (Cons x xs)
  then show ?case by (auto split: sum.splits)
qed



lemma mapM_normalizeItem_Inl:
  assumes "mapM normalizeItem items = Inl e"
  shows "e = TypeError"
proof -
  from mapM_Inl [OF assms] obtain x where "normalizeItem x = Inl e" by blast
  then show ?thesis by (simp add: normalizeItem_Inl)
qed

lemma ToString_hasText:
  "(hasText v \<longrightarrow> (\<exists>s. ToString nts v = Inr s)) \<and>
   (\<not> hasText v \<longrightarrow> ToString nts v = Inl TypeError)"
  "(hasTextList xs \<longrightarrow> (\<exists>ss. ToString_elements nts xs = Inr ss)) \<and>
   (\<not> hasTextList xs \<longrightarrow> ToString_elements nts xs = Inl TypeError)"
proof (induction nts v and nts xs rule: ToString_ToString_elements.induct)
  case (9 numToString x xs)
  show ?case
  proof (cases "nullish x")
    case True
    with 9 show ?thesis by (cases "hasTextList xs") auto
  next
    case False
    with 9 show ?thesis by (cases "hasText x"; cases "hasTextList xs") auto
  qed
qed auto

lemma ToString_textOf: "hasText v \<Longrightarrow> ToString nts v = Inr (textOf nts v)"
  using ToString_hasText(1) [of v nts] by (auto simp: textOf_def)

lemma ToString_TypeError: "\<not> hasText v \<Longrightarrow> ToString nts v = Inl TypeError"
  using ToString_hasText(1) [of v nts] by simp

lemma hasText_coalesce: "hasText v \<Longrightarrow> hasText (coalesce v (JStr s))"
  by (simp add: coalesce_def)

lemma not_hasText_coalesce: "\<not> hasText v \<Longrightarrow> coalesce v (JStr s) = v"
  by (cases v) (simp_all add: coalesce_def)

lemma formatErrorEntry_nullish:
  "nullish entry \<Longrightarrow> formatErrorEntry nts entry = Inl TypeError"
  by (simp add: formatErrorEntry_def getProp_nullish)

lemma formatErrorEntry_Ok:
  "entryOk entry \<Longrightarrow> formatErrorEntry nts entry = Inr (errorText nts entry)"
  by (simp add: formatErrorEntry_def entryOk_def getProp_member errorText_def
      ToString_textOf hasText_coalesce)

lemma formatErrorEntry_not_Ok:
  assumes "\<not> entryOk entry"
  shows "formatErrorEntry nts entry = Inl TypeError"
proof (cases "nullish entry")
  case True
  then show ?thesis by (rule formatErrorEntry_nullish)
next
  case n: False
  show ?thesis
  proof (cases "hasText (member entry ''Code'')")
    case False
    with n show ?thesis
      by (simp add: formatErrorEntry_def getProp_member not_hasText_coalesce ToString_TypeError)
  next
    case True
    with assms n have m: "\<not> hasText (member entry ''Message'')"
      by (simp add: entryOk_def)
    from n True m show ?thesis
      by (simp add: formatErrorEntry_def getProp_member not_hasText_coalesce
          ToString_TypeError ToString_textOf hasText_coalesce)
  qed
qed

lemma formatErrorEntry_Inl: "formatErrorEntry nts entry = Inl e \<Longrightarrow> e = TypeError"
  by (cases "entryOk entry") (simp_all add: formatErrorEntry_Ok formatErrorEntry_not_Ok)

lemma mapM_formatErrorEntry_Inl:
  "mapM (formatErrorEntry nts) xs = Inl e \<Longrightarrow> e = TypeError"
  by (auto dest!: mapM_Inl intro: formatErrorEntry_Inl)

lemma errorText_spec:
  "textOrMissing (member entry ''Code'') \<Longrightarrow> textOrMissing (member entry ''Message'')
   \<Longrightarrow> errorText nts entry = specErrorText entry"
  by (cases "member entry ''Code''"; cases "member entry ''Message''")
     (simp_all add: errorText_def specErrorText_def textOrMissing_def coalesce_def textOf_def)

lemma mapM_formatErrorEntry:
  "list_all entryOk es
   \<Longrightarrow> mapM (formatErrorEntry nts) es = Inr (map (errorText nts) es)"
  by (induction es) (simp_all add: formatErrorEntry_Ok)

lemma mapM_formatErrorEntry_not_Ok:
  assumes "\<not> list_all entryOk es"
  shows "mapM (formatErrorEntry nts) es = Inl TypeError"
proof (cases "mapM (formatErrorEntry nts) es")
  case (Inl e)
  with mapM_formatErrorEntry_Inl [OF Inl] show ?thesis by simp
next
  case (Inr ms)
  then have "list_all2 (\<lambda>x y. formatErrorEntry nts x = Inr y) es ms"
    by (simp add: mapM_Inr_iff)
  then have "\<forall>x \<in> set es. \<exists>y. formatErrorEntry nts x = Inr y"
    by (auto simp: list_all2_conv_all_nth in_set_conv_nth)
  then have "\<forall>x \<in> set es. entryOk x"
    using formatErrorEntry_not_Ok [of _ nts] by force
  with assms show ?thesis by (simp add: list_all_iff)
qed

lemma formatErrorMessages_none:
  "\<not> truthy (optProp errs ''length'') \<Longrightarrow> formatErrorMessages nts errs = Inr None"
  by (simp add: formatErrorMessages_def)

lemma truthy_length_JArr: "truthy (optProp (JArr es) ''length'') \<longleftrightarrow> es \<noteq> []"
  by (simp add: optProp_def)

lemma formatErrorMessages_array:
  assumes "es \<noteq> []" and "list_all entryOk es"
  shows "formatErrorMessages nts (JArr es) = Inr (Some (join ''; '' (map (errorText nts) es)))"
  using assms by (simp add: formatErrorMessages_def truthy_length_JArr mapM_formatErrorEntry)

lemma formatErrorMessages_array_not_Ok:
  assumes "\<not> list_all entryOk es"
  shows "formatErrorMessages nts (JArr es) = Inl TypeError"
proof -
  from assms have "es \<noteq> []" by auto
  with assms show ?thesis
    by (simp add: formatErrorMessages_def truthy_length_JArr mapM_formatErrorEntry_not_Ok)
qed

lemma formatErrorMessages_Inl:
  assumes "formatErrorMessages nts errs = Inl e"
  shows "e = TypeError"
proof (cases "truthy (optProp errs ''length'')")
  case False
  with assms show ?thesis by (simp add: formatErrorMessages_def)
next
  case True
  show ?thesis
  proof (cases errs)
    case (JArr xs)
    with True assms have "mapM (formatErrorEntry nts) xs = Inl e"
      by (simp add: formatErrorMessages_def split: sum.splits)
    then show ?thesis by (rule mapM_formatErrorEntry_Inl)
  qed (use True assms in \<open>simp_all add: formatErrorMessages_def\<close>)
qed

lemma handlePayload_nullish:
  "nullish payload \<Longrightarrow> handlePayload nts resp payload = Inl TypeError"
  by (simp add: handlePayload_def getProp_nullish)

lemma parsePayload_empty: "parsePayload parse [] = Inr (JObj [])"
  by (simp add: parsePayload_def)

lemma handlePayload_empty_object:
  "resp_ok resp \<Longrightarrow> handlePayload nts resp (JObj []) = Inr \<lparr> products = [], requestId = None \<rparr>"
  by (simp add: handlePayload_def getProp_def optProp_def coalesce_def)


lemma handlePayload_not_ok:
  "\<not> resp_ok resp \<Longrightarrow> \<not> nullish payload \<Longrightarrow>
   handlePayload nts resp payload =
     (case formatErrorMessages nts (member payload ''Errors'') of
        Inl e \<Rightarrow> Inl e
      | Inr (Some m) \<Rightarrow> Inl (ProviderRejected m)
      | Inr None \<Rightarrow>
          Inl (ProviderRejected (''Amazon API responded with status '' @
                                 show_nat (resp_status resp))))"
  by (simp add: handlePayload_def getProp_member)

lemma handlePayload_ok_errors:
  "resp_ok resp \<Longrightarrow> \<not> nullish payload \<Longrightarrow>
   truthy (optProp (member payload ''Errors'') ''length'') \<Longrightarrow>
   handlePayload nts resp payload =
     (case formatErrorMessages nts (member payload ''Errors'') of
        Inl e \<Rightarrow> Inl e
      | Inr (Some m) \<Rightarrow> Inl (ProviderRejected m)
      | Inr None \<Rightarrow> Inl (ProviderRejected ''Unknown Amazon API error''))"
  by (simp add: handlePayload_def getProp_member)

lemma handlePayload_ok_items:
  "resp_ok resp \<Longrightarrow> \<not> nullish payload \<Longrightarrow>
   \<not> truthy (optProp (member payload ''Errors'') ''length'') \<Longrightarrow>
   handlePayload nts resp payload =
     (case coalesce (optProp (member payload ''SearchResult'') ''Items'') (JArr []) of
        JArr items \<Rightarrow>
          (case mapM normalizeItem items of
             Inl e \<Rightarrow> Inl e
           | Inr ps \<Rightarrow>
               Inr \<lparr> products = ps,
                      requestId = (if truthy (member payload ''RequestId'')
                                   then Some (member payload ''RequestId'') else None) \<rparr>)
      | _ \<Rightarrow> Inl TypeError)"
  by (simp add: handlePayload_def getProp_member)

lemma handlePayload_ok_items_Inl:
  assumes "resp_ok resp" and "\<not> nullish payload"
    and "\<not> truthy (optProp (member payload ''Errors'') ''length'')"
    and h: "handlePayload nts resp payload = Inl e"
  shows "e = TypeError"
proof (cases "coalesce (optProp (member payload ''SearchResult'') ''Items'') (JArr [])")
  case (JArr items)
  with h handlePayload_ok_items [OF assms(1-3), of nts]
  have "mapM normalizeItem items = Inl e"
    by (simp split: sum.splits)
  from mapM_normalizeItem_Inl [OF this] show ?thesis .
qed (use h handlePayload_ok_items [OF assms(1-3), of nts] in simp_all)

lemma handlePayload_not_malformed:
  "handlePayload nts resp payload \<noteq> Inl (MalformedResponse m)"
proof
  assume h: "handlePayload nts resp payload = Inl (MalformedResponse m)"
  show False
  proof (cases "nullish payload")
    case True
    with h show False by (simp add: handlePayload_nullish)
  next
    case np: False
    show False
    proof (cases "resp_ok resp")
      case False
      with h np formatErrorMessages_Inl [of nts "member payload ''Errors''"]
      show False
        by (auto simp: handlePayload_not_ok split: sum.splits option.splits)
    next
      case ok: True
      show False
      proof (cases "truthy (optProp (member payload ''Errors'') ''length'')")
        case True
        with h np ok formatErrorMessages_Inl [of nts "member payload ''Errors''"]
        show False
          by (auto simp: handlePayload_ok_errors split: sum.splits option.splits)
      next
        case False
        from handlePayload_ok_items_Inl [OF ok np False h] show False by simp
      qed
    qed
  qed
qed


lemma searchProducts_reply_empty:
  "resp_ok resp \<Longrightarrow> resp_text resp = [] \<Longrightarrow>
   searchProducts_reply parse nts resp = Inr \<lparr> products = [], requestId = None \<rparr>"
  by (simp add: searchProducts_reply_def parsePayload_empty handlePayload_empty_object)

lemma searchProducts_reply_parse_error:
  "resp_text resp \<noteq> [] \<Longrightarrow> parse (resp_text resp) = Inl m \<Longrightarrow>
   searchProducts_reply parse nts resp =
     Inl (MalformedResponse (''Unable to parse Amazon API response as JSON: '' @ m))"
  by (simp add: searchProducts_reply_def parsePayload_def)

lemma searchProducts_reply_malformed_iff:
  "(\<exists>m. searchProducts_reply parse nts resp = Inl (MalformedResponse m)) \<longleftrightarrow>
   (resp_text resp \<noteq> [] \<and> (\<exists>m. parse (resp_text resp) = Inl m))"
proof (cases "resp_text resp = []")
  case True
  then show ?thesis
    by (simp add: searchProducts_reply_def parsePayload_empty handlePayload_not_malformed)
next
  case False
  show ?thesis
  proof (cases "parse (resp_text resp)")
    case (Inl m)
    with False show ?thesis by (simp add: searchProducts_reply_parse_error)
  next
    case (Inr v)
    with False show ?thesis
      by (simp add: searchProducts_reply_def parsePayload_def handlePayload_not_malformed)
  qed
qed

text \<open>
  C4, as the code has it. \<open>searchProducts\<close> fails with the parse error exactly when the
  reply body is not empty and \<open>JSON.parse\<close> rejects it, and the message is then
  \<open>Unable to parse Amazon API response as JSON: \<close> followed by the message of the parser.
  An empty body is not parsed: it is taken as the reply \<open>{}\<close>.
\<close>

theorem searchProducts_parse_failure:
  "((\<exists>m. searchProducts_reply parse numToString resp = Inl (MalformedResponse m)) \<longleftrightarrow>
      (resp_text resp \<noteq> [] \<and> (\<exists>m. parse (resp_text resp) = Inl m)))
   \<and> (\<forall>m. resp_text resp \<noteq> [] \<and> parse (resp_text resp) = Inl m \<longrightarrow>
         searchProducts_reply parse numToString resp =
           Inl (MalformedResponse (''Unable to parse Amazon API response as JSON: '' @ m)))"
  by (simp add: searchProducts_reply_malformed_iff searchProducts_reply_parse_error)

text \<open>The theorem at the body \<open>not-json\<close> of the repository's test.\<close>

theorem searchProducts_parse_failure_witness:
  "resp_text \<lparr> resp_ok = True, resp_status = 200, resp_text = ''not-json'' \<rparr> \<noteq> []
   \<and> (\<lambda>s. Inl ''Unexpected token'') ''not-json'' = (Inl ''Unexpected token'' :: string + jsval)
   \<and> searchProducts_reply (\<lambda>s. Inl ''Unexpected token'') (\<lambda>n. [])
         \<lparr> resp_ok = True, resp_status = 200, resp_text = ''not-json'' \<rparr> =
       Inl (MalformedResponse
              ''Unable to parse Amazon API response as JSON: Unexpected token'')"
  using searchProducts_parse_failure
    [of "\<lambda>s. Inl ''Unexpected token''" "\<lambda>n. []"
        "\<lparr> resp_ok = True, resp_status = 200, resp_text = ''not-json'' \<rparr>"]
  by simp

text \<open>
  C4 as stated fails at the empty body: it is no JSON text, so \<open>JSON.parse\<close> would reject
  it, yet the call does not fail with the parse error.
\<close>

theorem searchProducts_parse_failure_counterexample:
  "\<not> (\<forall>parse numToString.
        (\<exists>m. parse [] = Inl m) \<longrightarrow>
        (\<exists>m. searchProducts_reply parse numToString
                \<lparr> resp_ok = True, resp_status = 200, resp_text = [] \<rparr> =
              Inl (MalformedResponse m)))"
proof
  assume a: "\<forall>parse numToString.
        (\<exists>m. parse [] = Inl m) \<longrightarrow>
        (\<exists>m. searchProducts_reply parse numToString
                \<lparr> resp_ok = True, resp_status = 200, resp_text = [] \<rparr> =
              Inl (MalformedResponse m))"
  from a [rule_format, of "\<lambda>s. Inl ''Unexpected end of JSON input''" "\<lambda>n. []"]
  show False by (simp add: searchProducts_reply_empty)
qed

text \<open>
  C10. An empty reply body with a success status is no failure: whatever the parser would
  say of it, the call returns no products and no request identifier.
\<close>

theorem searchProducts_empty_body:
  "searchProducts_reply parse numToString
     \<lparr> resp_ok = True, resp_status = st, resp_text = [] \<rparr> =
   Inr \<lparr> products = [], requestId = None \<rparr>"
  by (simp add: searchProducts_reply_empty)

lemma wellFormedErrors_nonempty:
  assumes "wellFormedErrors errs" and "errorList errs \<noteq> []"
  shows "truthy (optProp errs ''length'')"
    and "formatErrorMessages nts errs =
           Inr (Some (join ''; '' (map (errorText nts) (errorList errs))))"
proof -
  from assms(2) obtain es where es: "errs = JArr es" "es \<noteq> []"
    by (cases errs) (simp_all add: errorList_def)
  with assms(1) have all: "list_all entryOk es"
    by (simp add: wellFormedErrors_def)
  from es show "truthy (optProp errs ''length'')"
    by (simp add: truthy_length_JArr)
  from es all show "formatErrorMessages nts errs =
           Inr (Some (join ''; '' (map (errorText nts) (errorList errs))))"
    by (simp add: formatErrorMessages_array errorList_def)
qed

lemma wellFormedErrors_empty:
  assumes "wellFormedErrors errs" and "errorList errs = []"
  shows "\<not> truthy (optProp errs ''length'')"
  using assms
  by (cases errs) (simp_all add: wellFormedErrors_def errorList_def truthy_length_JArr)

lemma handlePayload_error_list:
  assumes "\<not> nullish payload" and "wellFormedErrors (member payload ''Errors'')"
    and "errorList (member payload ''Errors'') \<noteq> []"
  shows "handlePayload nts resp payload =
     Inl (ProviderRejected
            (join ''; '' (map (errorText nts) (errorList (member payload ''Errors'')))))"
proof (cases "resp_ok resp")
  case True
  with assms(1) wellFormedErrors_nonempty(1) [OF assms(2,3)]
    wellFormedErrors_nonempty(2) [OF assms(2,3), of nts] show ?thesis
    by (simp add: handlePayload_ok_errors)
next
  case False
  with assms(1) wellFormedErrors_nonempty(2) [OF assms(2,3), of nts] show ?thesis
    by (simp add: handlePayload_not_ok)
qed

lemma handlePayload_bare_status:
  assumes "\<not> nullish payload" and "wellFormedErrors (member payload ''Errors'')"
    and "errorList (member payload ''Errors'') = []" and "\<not> resp_ok resp"
  shows "handlePayload nts resp payload =
     Inl (ProviderRejected (''Amazon API responded with status '' @
                            show_nat (resp_status resp)))"
  using assms(1,4) wellFormedErrors_empty [OF assms(2,3)]
  by (simp add: handlePayload_not_ok formatErrorMessages_none)

lemma handlePayload_no_rejection:
  assumes "\<not> nullish payload" and "wellFormedErrors (member payload ''Errors'')"
    and "errorList (member payload ''Errors'') = []" and "resp_ok resp"
  shows "handlePayload nts resp payload \<noteq> Inl (ProviderRejected m)"
proof
  assume "handlePayload nts resp payload = Inl (ProviderRejected m)"
  from handlePayload_ok_items_Inl
    [OF assms(4) assms(1) wellFormedErrors_empty [OF assms(2,3)] this]
  show False by simp
qed

text \<open>
  C5, as the code has it. Take a parsed reply that is not \<open>null\<close> and whose \<open>Errors\<close> member
  can be walked: an array of entries that are not \<open>null\<close> and whose code and message can be
  converted to text, or a value without a truthy \<open>length\<close> (absent, \<open>null\<close>, a number, an
  empty array or string). Then \<open>searchProducts\<close> fails as rejected by the provider if and
  only if the error array is not empty or the status is not a success. With a non-empty
  error array the message is the texts of the entries joined by \<open>; \<close>, whatever the
  status, and the text of an entry is \<open>code: message\<close>, with \<open>UnknownCode\<close> or the generic
  message when the field is missing. With no error entry and a status that is not a
  success, the message states the bare status code.
\<close>

theorem provider_rejection:
  assumes "\<not> nullish payload" and "wellFormedErrors (member payload ''Errors'')"
  shows "((\<exists>m. handlePayload numToString resp payload = Inl (ProviderRejected m)) \<longleftrightarrow>
            (errorList (member payload ''Errors'') \<noteq> [] \<or> \<not> resp_ok resp))
       \<and> (errorList (member payload ''Errors'') \<noteq> [] \<longrightarrow>
            handlePayload numToString resp payload =
              Inl (ProviderRejected
                     (join ''; '' (map (errorText numToString)
                                       (errorList (member payload ''Errors''))))))
       \<and> (errorList (member payload ''Errors'') = [] \<and> \<not> resp_ok resp \<longrightarrow>
            handlePayload numToString resp payload =
              Inl (ProviderRejected (''Amazon API responded with status '' @
                                     show_nat (resp_status resp))))
       \<and> (\<forall>entry. textOrMissing (member entry ''Code'') \<and>
                    textOrMissing (member entry ''Message'') \<longrightarrow>
                    errorText numToString entry = specErrorText entry)"
proof (intro conjI)
  show "(\<exists>m. handlePayload numToString resp payload = Inl (ProviderRejected m)) \<longleftrightarrow>
          (errorList (member payload ''Errors'') \<noteq> [] \<or> \<not> resp_ok resp)"
  proof (cases "errorList (member payload ''Errors'') = []")
    case False
    with handlePayload_error_list [OF assms False, of numToString resp] show ?thesis
      by simp
  next
    case e: True
    show ?thesis
    proof (cases "resp_ok resp")
      case True
      with e handlePayload_no_rejection [OF assms e True, of numToString] show ?thesis
        by simp
    next
      case False
      with e handlePayload_bare_status [OF assms e False, of numToString] show ?thesis
        by simp
    qed
  qed
next
  show "errorList (member payload ''Errors'') \<noteq> [] \<longrightarrow>
          handlePayload numToString resp payload =
            Inl (ProviderRejected
                   (join ''; '' (map (errorText numToString)
                                     (errorList (member payload ''Errors'')))))"
    using handlePayload_error_list [OF assms] by blast
next
  show "errorList (member payload ''Errors'') = [] \<and> \<not> resp_ok resp \<longrightarrow>
          handlePayload numToString resp payload =
            Inl (ProviderRejected (''Amazon API responded with status '' @
                                   show_nat (resp_status resp)))"
    using handlePayload_bare_status [OF assms] by blast
next
  show "\<forall>entry. textOrMissing (member entry ''Code'') \<and>
                  textOrMissing (member entry ''Message'') \<longrightarrow>
                  errorText numToString entry = specErrorText entry"
    by (simp add: errorText_spec)
qed

text \<open>
  The theorem at the reply of the repository's test, with one more entry that has no
  fields, under the status 403; and at the reply \<open>{}\<close> under the status 503.
\<close>

theorem provider_rejection_witness:
  "\<not> nullish (JObj [(''Errors'',
        JArr [JObj [(''Code'', JStr ''AccessDenied''),
                    (''Message'', JStr ''The security token included in the request is invalid'')],
              JObj []])])
   \<and> wellFormedErrors (member (JObj [(''Errors'',
        JArr [JObj [(''Code'', JStr ''AccessDenied''),
                    (''Message'', JStr ''The security token included in the request is invalid'')],
              JObj []])]) ''Errors'')
   \<and> (\<forall>numToString.
         handlePayload numToString \<lparr> resp_ok = False, resp_status = 403, resp_text = [] \<rparr>
           (JObj [(''Errors'',
              JArr [JObj [(''Code'', JStr ''AccessDenied''),
                          (''Message'', JStr ''The security token included in the request is invalid'')],
                    JObj []])]) =
         Inl (ProviderRejected (''AccessDenied: The security token included in the request is invalid; '' @
                ''UnknownCode: Unknown error from Amazon Product Advertising API'')))
   \<and> \<not> nullish (JObj []) \<and> wellFormedErrors (member (JObj []) ''Errors'')
   \<and> (\<forall>numToString.
         handlePayload numToString \<lparr> resp_ok = False, resp_status = 503, resp_text = [] \<rparr>
           (JObj []) =
         Inl (ProviderRejected ''Amazon API responded with status 503''))"
proof -
  let ?p = "JObj [(''Errors'',
        JArr [JObj [(''Code'', JStr ''AccessDenied''),
                    (''Message'', JStr ''The security token included in the request is invalid'')],
              JObj []])]"
  have a: "\<not> nullish ?p" by simp
  have b: "wellFormedErrors (member ?p ''Errors'')"
    by (simp add: wellFormedErrors_def entryOk_def)
  have c: "\<not> nullish (JObj [])" by simp
  have d: "wellFormedErrors (member (JObj []) ''Errors'')"
    by (simp add: wellFormedErrors_def optProp_def)
  have s: "show_nat 503 = ''503''" by (simp add: show_nat.simps)
  have e: "handlePayload numToString \<lparr> resp_ok = False, resp_status = 403, resp_text = [] \<rparr> ?p =
         Inl (ProviderRejected (''AccessDenied: The security token included in the request is invalid; '' @
                ''UnknownCode: Unknown error from Amazon Product Advertising API''))"
    for numToString
    using provider_rejection [OF a b, of numToString
        "\<lparr> resp_ok = False, resp_status = 403, resp_text = [] \<rparr>"]
    by (simp add: errorList_def errorText_def coalesce_def textOf_def)
  have f: "handlePayload numToString \<lparr> resp_ok = False, resp_status = 503, resp_text = [] \<rparr>
           (JObj []) =
         Inl (ProviderRejected ''Amazon API responded with status 503'')"
    for numToString
    using provider_rejection [OF c d, of numToString
        "\<lparr> resp_ok = False, resp_status = 503, resp_text = [] \<rparr>"]
    by (simp add: errorList_def s)
  from a b c d e f show ?thesis by blast
qed

text \<open>
  C5 as stated fails on a reply that parses to \<open>null\<close>, on an error list that holds
  \<open>null\<close>, and on an entry whose message is an object with a member named \<open>toString\<close>:
  under a status that is not a success the call fails with a \<open>TypeError\<close>, not as rejected
  by the provider.
\<close>

theorem provider_rejection_counterexample:
  "(\<forall>numToString.
      handlePayload numToString \<lparr> resp_ok = False, resp_status = 500, resp_text = ''null'' \<rparr>
        JNull = Inl TypeError
      \<and> (\<forall>m. handlePayload numToString
                 \<lparr> resp_ok = False, resp_status = 500, resp_text = ''null'' \<rparr> JNull \<noteq>
               Inl (ProviderRejected m)))
   \<and> (\<forall>numToString.
      handlePayload numToString \<lparr> resp_ok = False, resp_status = 403, resp_text = [] \<rparr>
        (JObj [(''Errors'', JArr [JNull])]) = Inl TypeError
      \<and> (\<forall>m. handlePayload numToString
                 \<lparr> resp_ok = False, resp_status = 403, resp_text = [] \<rparr>
                 (JObj [(''Errors'', JArr [JNull])]) \<noteq>
               Inl (ProviderRejected m)))
   \<and> (\<forall>numToString.
      handlePayload numToString \<lparr> resp_ok = False, resp_status = 403, resp_text = [] \<rparr>
        (JObj [(''Errors'',
           JArr [JObj [(''Code'', JStr ''X''),
                       (''Message'', JObj [(''toString'', JNull)])]])]) = Inl TypeError
      \<and> (\<forall>m. handlePayload numToString
                 \<lparr> resp_ok = False, resp_status = 403, resp_text = [] \<rparr>
                 (JObj [(''Errors'',
                    JArr [JObj [(''Code'', JStr ''X''),
                                (''Message'', JObj [(''toString'', JNull)])]])]) \<noteq>
               Inl (ProviderRejected m)))"
proof -
  have a: "handlePayload numToString
             \<lparr> resp_ok = False, resp_status = 500, resp_text = ''null'' \<rparr> JNull = Inl TypeError"
    for numToString
    by (simp add: handlePayload_nullish)
  have b: "handlePayload numToString
             \<lparr> resp_ok = False, resp_status = 403, resp_text = [] \<rparr>
             (JObj [(''Errors'', JArr [JNull])]) = Inl TypeError"
    for numToString
    by (simp add: handlePayload_not_ok formatErrorMessages_array_not_Ok entryOk_def)
  have c: "handlePayload numToString
             \<lparr> resp_ok = False, resp_status = 403, resp_text = [] \<rparr>
             (JObj [(''Errors'',
                JArr [JObj [(''Code'', JStr ''X''),
                            (''Message'', JObj [(''toString'', JNull)])]])]) = Inl TypeError"
    for numToString
    by (simp add: handlePayload_not_ok formatErrorMessages_array_not_Ok entryOk_def)
  show ?thesis by (simp add: a b c)
qed






lemma normalizePrice_None_iff:
  "normalizePrice p = None \<longleftrightarrow> \<not> truthy (optProp p ''DisplayAmount'')"
  by (simp add: normalizePrice_def)

lemma normalizePrice_Some:
  assumes "normalizePrice p = Some np"
  shows "display np = optProp p ''DisplayAmount''"
    and "truthy (optProp p ''DisplayAmount'')"
    and "amount np = Some a \<longleftrightarrow> optProp p ''Amount'' = JNum a \<and> isFinite a"
    and "currency np = Some c \<longleftrightarrow> optProp p ''Currency'' = c \<and> truthy c"
proof -
  from assms have t: "truthy (optProp p ''DisplayAmount'')"
    by (simp add: normalizePrice_def split: if_splits)
  then have n: "\<not> nullish p" by (auto simp: optProp_def split: if_splits)
  from assms t have np: "np = \<lparr> display = member p ''DisplayAmount'',
                  amount = (case member p ''Amount'' of
                              JNum n \<Rightarrow> if isFinite n then Some n else None
                            | _ \<Rightarrow> None),
                  currency = (if truthy (member p ''Currency'')
                              then Some (member p ''Currency'') else None) \<rparr>"
    by (simp add: normalizePrice_def)
  show "truthy (optProp p ''DisplayAmount'')" by (rule t)
  show "display np = optProp p ''DisplayAmount''" using n by (simp add: np optProp_member)
  show "amount np = Some a \<longleftrightarrow> optProp p ''Amount'' = JNum a \<and> isFinite a"
    using n by (cases "member p ''Amount''") (auto simp: np optProp_member)
  show "currency np = Some c \<longleftrightarrow> optProp p ''Currency'' = c \<and> truthy c"
    using n by (auto simp: np optProp_member)
qed

lemma normalizeItem_fields:
  assumes "\<not> nullish item"
  shows "\<exists>ps. normalizeItem item = Inr ps
     \<and> price ps = normalizePrice
         (optProp (optProp (optProp (member item ''Offers'') ''Listings'') ''0'') ''Price'')
     \<and> rating ps = parseNumber (optProp (member item ''CustomerReviews'') ''StarRating'')
     \<and> totalReviews ps =
         parseInteger (coalesce (optProp (member item ''CustomerReviews'') ''TotalReviewCount'')
                                (optProp (member item ''CustomerReviews'') ''Count''))"
  using assms by (simp add: normalizeItem_def getProp_member Let_def)

text \<open>
  C6, as the code has it. For every item that is not \<open>null\<close>, with \<open>listings\<close> the offer
  listings, \<open>p\<close> the price of the first listing and \<open>d\<close> its display amount: the price comes
  from the first listing alone; without a listing there is no price; when the display
  amount is absent, \<open>null\<close> or the empty string there is no price; when it is a string that
  is not empty there is a price and \<open>display\<close> is that string. In general there is a price
  exactly when the display amount is truthy, and then the amount is copied exactly when
  it is a finite number, and the currency exactly when it is present and not empty.
\<close>

theorem normalizeItem_price:
  assumes "\<not> nullish item"
    and "listings = optProp (member item ''Offers'') ''Listings''"
    and "p = optProp (optProp listings ''0'') ''Price''"
    and "d = optProp p ''DisplayAmount''"
  shows "\<exists>ps. normalizeItem item = Inr ps
     \<and> (\<forall>l ls. listings = JArr (l # ls) \<longrightarrow> p = optProp l ''Price'')
     \<and> (listings = JArr [] \<or> nullish listings \<longrightarrow> price ps = None)
     \<and> (nullish d \<or> d = JStr [] \<longrightarrow> price ps = None)
     \<and> (\<forall>c cs. d = JStr (c # cs) \<longrightarrow> (\<exists>np. price ps = Some np \<and> display np = JStr (c # cs)))
     \<and> (price ps = None \<longleftrightarrow> \<not> truthy d)
     \<and> (\<forall>np. price ps = Some np \<longrightarrow>
           display np = d \<and> truthy d
           \<and> (\<forall>a. amount np = Some a \<longleftrightarrow> optProp p ''Amount'' = JNum a \<and> isFinite a)
           \<and> (\<forall>c. currency np = Some c \<longleftrightarrow> optProp p ''Currency'' = c \<and> truthy c))"
proof -
  from normalizeItem_fields [OF assms(1)] obtain ps where
    ps: "normalizeItem item = Inr ps" and pr: "price ps = normalizePrice p"
    by (auto simp: assms(2,3))
  have a: "\<forall>l ls. listings = JArr (l # ls) \<longrightarrow> p = optProp l ''Price''"
    by (simp add: assms(3) optProp_def)
  have n: "price ps = None \<longleftrightarrow> \<not> truthy d"
    by (simp add: pr normalizePrice_None_iff assms(4))
  have b: "listings = JArr [] \<or> nullish listings \<longrightarrow> price ps = None"
    by (auto simp: n assms(3,4) optProp_def)
  have c: "nullish d \<or> d = JStr [] \<longrightarrow> price ps = None"
    using n truthy_not_nullish [of d] by auto
  have e: "\<forall>np. price ps = Some np \<longrightarrow>
           display np = d \<and> truthy d
           \<and> (\<forall>a. amount np = Some a \<longleftrightarrow> optProp p ''Amount'' = JNum a \<and> isFinite a)
           \<and> (\<forall>c. currency np = Some c \<longleftrightarrow> optProp p ''Currency'' = c \<and> truthy c)"
  proof (intro allI impI)
    fix np
    assume "price ps = Some np"
    then have s: "normalizePrice p = Some np" by (simp add: pr)
    from normalizePrice_Some [OF s]
    show "display np = d \<and> truthy d
           \<and> (\<forall>a. amount np = Some a \<longleftrightarrow> optProp p ''Amount'' = JNum a \<and> isFinite a)
           \<and> (\<forall>c. currency np = Some c \<longleftrightarrow> optProp p ''Currency'' = c \<and> truthy c)"
      by (simp add: assms(4))
  qed
  have f: "\<forall>c cs. d = JStr (c # cs) \<longrightarrow> (\<exists>np. price ps = Some np \<and> display np = JStr (c # cs))"
  proof (intro allI impI)
    fix c cs
    assume d: "d = JStr (c # cs)"
    with n obtain np where np: "price ps = Some np" by auto
    with e d have "display np = JStr (c # cs)" by simp
    with np show "\<exists>np. price ps = Some np \<and> display np = JStr (c # cs)" by blast
  qed
  from ps a b c f n e show ?thesis
    by (intro exI [of _ ps] conjI)
qed

lemmas StringToNumber_eval =
  StringToNumber_def trim_def ws1_def ws2_def ws3_def NonDecimalIntegerLiteral_def
  unsigned_literal_def
  StrUnsignedDecimalLiteral_def is_digit_def ExponentPart_def hex_val_def pow10_def
  radix_value_def DecimalDigits_def Let_def

lemma fl64_4_6: "fl64 (46 / 10) = Fin (2589569785738035 / 562949953421312)"
  by (subst fl64_normal [where e = 2]) (simp_all add: fl64_eval)

lemma fl64_321: "fl64 321 = Fin 321"
  by (subst fl64_normal [where e = 8]) (simp_all add: fl64_eval)

lemma StringToNumber_4_6: "StringToNumber ''4.6'' = fl64 (46 / 10)"
  by (simp add: StringToNumber_eval)

lemma StringToNumber_321: "StringToNumber ''321'' = Fin 321"
  by (simp add: StringToNumber_eval fl64_321)

text \<open>
  The theorem at an item with two priced listings, which gets the price of the first, and
  at an item with an empty list of listings, which gets none.
\<close>

theorem normalizeItem_price_witness:
  "\<not> nullish (JObj [(''ASIN'', JStr ''B0TEST123''),
       (''Offers'', JObj [(''Listings'',
          JArr [JObj [(''Price'', JObj [(''DisplayAmount'', JStr ''$199.50''),
                                        (''Amount'', JNum (Fin (399 / 2))),
                                        (''Currency'', JStr ''USD'')])],
                JObj [(''Price'', JObj [(''DisplayAmount'', JStr ''$1.00'')])]])])])
   \<and> (\<exists>ps np. normalizeItem (JObj [(''ASIN'', JStr ''B0TEST123''),
       (''Offers'', JObj [(''Listings'',
          JArr [JObj [(''Price'', JObj [(''DisplayAmount'', JStr ''$199.50''),
                                        (''Amount'', JNum (Fin (399 / 2))),
                                        (''Currency'', JStr ''USD'')])],
                JObj [(''Price'', JObj [(''DisplayAmount'', JStr ''$1.00'')])]])])]) = Inr ps
        \<and> price ps = Some np \<and> display np = JStr ''$199.50''
        \<and> amount np = Some (Fin (399 / 2)) \<and> currency np = Some (JStr ''USD''))
   \<and> \<not> nullish (JObj [(''ASIN'', JStr ''B0TEST123''), (''Offers'', JObj [(''Listings'', JArr [])])])
   \<and> (\<exists>ps. normalizeItem (JObj [(''ASIN'', JStr ''B0TEST123''),
                                  (''Offers'', JObj [(''Listings'', JArr [])])]) = Inr ps
        \<and> price ps = None)"
proof -
  let ?p = "JObj [(''DisplayAmount'', JStr ''$199.50''),
                  (''Amount'', JNum (Fin (399 / 2))), (''Currency'', JStr ''USD'')]"
  let ?ls = "JArr [JObj [(''Price'', ?p)],
                   JObj [(''Price'', JObj [(''DisplayAmount'', JStr ''$1.00'')])]]"
  let ?i = "JObj [(''ASIN'', JStr ''B0TEST123''), (''Offers'', JObj [(''Listings'', ?ls)])]"
  let ?j = "JObj [(''ASIN'', JStr ''B0TEST123''), (''Offers'', JObj [(''Listings'', JArr [])])]"
  have a: "\<not> nullish ?i" by simp
  have l: "?ls = optProp (member ?i ''Offers'') ''Listings''" by (simp add: optProp_def)
  have p: "?p = optProp (optProp ?ls ''0'') ''Price''" by (simp add: optProp_def)
  have d: "JStr ''$199.50'' = optProp ?p ''DisplayAmount''" by (simp add: optProp_def)
  from normalizeItem_price [OF a l p d] obtain ps where
    ps: "normalizeItem ?i = Inr ps"
    and n: "price ps = None \<longleftrightarrow> \<not> truthy (JStr ''$199.50'')"
    and s: "\<forall>np. price ps = Some np \<longrightarrow>
           display np = JStr ''$199.50'' \<and> truthy (JStr ''$199.50'')
           \<and> (\<forall>a. amount np = Some a \<longleftrightarrow> optProp ?p ''Amount'' = JNum a \<and> isFinite a)
           \<and> (\<forall>c. currency np = Some c \<longleftrightarrow> optProp ?p ''Currency'' = c \<and> truthy c)"
    by (elim exE conjE) (rule that)
  from n obtain np where np: "price ps = Some np" by auto
  from s np have "display np = JStr ''$199.50''"
    and "amount np = Some (Fin (399 / 2))" and "currency np = Some (JStr ''USD'')"
    by (simp_all add: optProp_def)
  with ps np have first:
    "\<exists>ps np. normalizeItem ?i = Inr ps \<and> price ps = Some np \<and> display np = JStr ''$199.50''
        \<and> amount np = Some (Fin (399 / 2)) \<and> currency np = Some (JStr ''USD'')"
    by blast
  have b: "\<not> nullish ?j" by simp
  have l': "JArr [] = optProp (member ?j ''Offers'') ''Listings''" by (simp add: optProp_def)
  from normalizeItem_price [OF b l' refl refl] obtain qs where
    "normalizeItem ?j = Inr qs" and "JArr [] = JArr [] \<or> nullish (JArr []) \<longrightarrow> price qs = None"
    by (elim exE conjE) (rule that)
  then have second: "\<exists>ps. normalizeItem ?j = Inr ps \<and> price ps = None" by simp
  from a first b second show ?thesis by (intro conjI)
qed

text \<open>
  C6 as stated fails when the display amount is not a string: for the number \<open>12\<close> there is
  no display-amount string, and yet the summary has a price, whose display is the number.
\<close>

theorem normalizeItem_price_counterexample:
  "normalizeItem (JObj [(''ASIN'', JStr ''B0TEST123''),
       (''Offers'', JObj [(''Listings'',
          JArr [JObj [(''Price'', JObj [(''DisplayAmount'', JNum (Fin 12))])]])])]) =
     Inr \<lparr> asin = JStr ''B0TEST123'', title = JStr ''B0TEST123'', detailPageUrl = None,
           price = Some \<lparr> display = JNum (Fin 12), amount = None, currency = None \<rparr>,
           rating = None, totalReviews = None, imageUrl = None \<rparr>"
  by (simp add: normalizeItem_def getProp_def optProp_def coalesce_def parseNumber_def
      parseInteger_def normalizePrice_def Let_def)

lemma parseNumber_JNum: "parseNumber (JNum n) = (if isFinite n then Some n else None)"
  by (simp add: parseNumber_def)

lemma parseNumber_JStr:
  "parseNumber (JStr s) =
     (if isFinite (StringToNumber s) then Some (StringToNumber s) else None)"
  by (simp add: parseNumber_def Let_def)

lemma parseNumber_other:
  "(\<forall>n. v \<noteq> JNum n) \<and> (\<forall>s. v \<noteq> JStr s) \<Longrightarrow> parseNumber v = None"
  by (cases v) (simp_all add: parseNumber_def)

lemma parseNumber_finite: "parseNumber v = Some x \<Longrightarrow> \<exists>q. x = Fin q"
  by (cases v; cases x) (simp_all add: parseNumber_def Let_def split: if_splits)

lemma parseInteger_round: "parseInteger v = map_option Math_round (parseNumber v)"
proof (cases "parseNumber v")
  case None
  then show ?thesis by (simp add: parseInteger_def)
next
  case (Some x)
  with parseNumber_finite [OF Some] show ?thesis
    by (auto simp: parseInteger_def Let_def)
qed

lemma parseInteger_integer: "parseInteger v = Some n \<Longrightarrow> \<exists>k. n = Fin (of_int k)"
proof -
  assume a: "parseInteger v = Some n"
  then obtain x where x: "parseNumber v = Some x" and n: "n = Math_round x"
    by (auto simp: parseInteger_round)
  from parseNumber_finite [OF x] obtain q where "x = Fin q" by blast
  with n show ?thesis by auto
qed

lemma coalesce_if: "coalesce a b = (if nullish a then b else a)"
  by (simp add: coalesce_def)

text \<open>
  C7. For every item that is not \<open>null\<close>: the rating is \<open>parseNumber\<close> of the star rating and
  the review count \<open>parseInteger\<close> of the total review count, or of the count when there is
  no total. \<open>parseNumber\<close> keeps a finite number, reads a string by \<open>Number(...)\<close> and keeps
  the result when it is finite, and discards everything else; \<open>parseInteger\<close> rounds what
  \<open>parseNumber\<close> keeps, so its result is an integer. The star rating \<open>"4.6"\<close> gives the
  rating \<open>4.6\<close>, the total review count \<open>"321"\<close> gives \<open>321\<close>.
\<close>

theorem normalizeItem_reviews:
  assumes "\<not> nullish item"
    and "reviews = member item ''CustomerReviews''"
    and "star = optProp reviews ''StarRating''"
    and "totalCount = optProp reviews ''TotalReviewCount''"
    and "cnt = optProp reviews ''Count''"
  shows "\<exists>ps. normalizeItem item = Inr ps
     \<and> rating ps = parseNumber star
     \<and> totalReviews ps = parseInteger (if nullish totalCount then cnt else totalCount)
     \<and> (\<forall>n. parseNumber (JNum n) = (if isFinite n then Some n else None))
     \<and> (\<forall>s. parseNumber (JStr s) =
              (if isFinite (StringToNumber s) then Some (StringToNumber s) else None))
     \<and> (\<forall>v. (\<forall>n. v \<noteq> JNum n) \<and> (\<forall>s. v \<noteq> JStr s) \<longrightarrow> parseNumber v = None)
     \<and> (\<forall>v. parseInteger v = map_option Math_round (parseNumber v))
     \<and> (\<forall>v n. parseInteger v = Some n \<longrightarrow> (\<exists>k. n = Fin (of_int k)))
     \<and> (star = JStr ''4.6'' \<longrightarrow> rating ps = Some (fl64 (46 / 10)))
     \<and> (totalCount = JStr ''321'' \<longrightarrow> totalReviews ps = Some (Fin 321))"
proof -
  from normalizeItem_fields [OF assms(1)] obtain ps where
    ps: "normalizeItem item = Inr ps"
    and r: "rating ps = parseNumber star"
    and t: "totalReviews ps = parseInteger (if nullish totalCount then cnt else totalCount)"
    by (auto simp: assms(2-5) coalesce_if)
  have a: "\<forall>n. parseNumber (JNum n) = (if isFinite n then Some n else None)"
    by (simp add: parseNumber_JNum)
  have b: "\<forall>s. parseNumber (JStr s) =
              (if isFinite (StringToNumber s) then Some (StringToNumber s) else None)"
    by (simp add: parseNumber_JStr)
  have c: "\<forall>v. (\<forall>n. v \<noteq> JNum n) \<and> (\<forall>s. v \<noteq> JStr s) \<longrightarrow> parseNumber v = None"
    using parseNumber_other by blast
  have d: "\<forall>v. parseInteger v = map_option Math_round (parseNumber v)"
    by (simp add: parseInteger_round)
  have e: "\<forall>v n. parseInteger v = Some n \<longrightarrow> (\<exists>k. n = Fin (of_int k))"
    using parseInteger_integer by blast
  have "parseNumber (JStr ''4.6'') = Some (fl64 (46 / 10))"
    by (simp only: parseNumber_JStr StringToNumber_4_6 fl64_4_6 isFinite.simps if_True)
  then have f: "star = JStr ''4.6'' \<longrightarrow> rating ps = Some (fl64 (46 / 10))"
    by (simp add: r)
  have g: "totalCount = JStr ''321'' \<longrightarrow> totalReviews ps = Some (Fin 321)"
    by (simp add: t parseInteger_round parseNumber_JStr StringToNumber_321
        floor_rat_divide_numeral)
  from ps r t a b c d e f g show ?thesis
    by (intro exI [of _ ps] conjI)
qed

text \<open>
  The theorem at the reviews of the repository's test, with a count beside the total: the
  total wins.
\<close>

theorem normalizeItem_reviews_witness:
  "\<not> nullish (JObj [(''ASIN'', JStr ''B0TEST123''),
       (''CustomerReviews'', JObj [(''StarRating'', JStr ''4.6''),
                                   (''TotalReviewCount'', JStr ''321''),
                                   (''Count'', JNum (Fin 17))])])
   \<and> (\<exists>ps. normalizeItem (JObj [(''ASIN'', JStr ''B0TEST123''),
       (''CustomerReviews'', JObj [(''StarRating'', JStr ''4.6''),
                                   (''TotalReviewCount'', JStr ''321''),
                                   (''Count'', JNum (Fin 17))])]) = Inr ps
        \<and> rating ps = Some (fl64 (46 / 10)) \<and> totalReviews ps = Some (Fin 321))
   \<and> fl64 (46 / 10) = Fin (2589569785738035 / 562949953421312)"
proof -
  let ?rv = "JObj [(''StarRating'', JStr ''4.6''), (''TotalReviewCount'', JStr ''321''),
                   (''Count'', JNum (Fin 17))]"
  let ?i = "JObj [(''ASIN'', JStr ''B0TEST123''), (''CustomerReviews'', ?rv)]"
  have a: "\<not> nullish ?i" by simp
  have r: "?rv = member ?i ''CustomerReviews''" by simp
  have s: "JStr ''4.6'' = optProp ?rv ''StarRating''" by (simp add: optProp_def)
  have t: "JStr ''321'' = optProp ?rv ''TotalReviewCount''" by (simp add: optProp_def)
  have c: "JNum (Fin 17) = optProp ?rv ''Count''" by (simp add: optProp_def)
  from normalizeItem_reviews [OF a r s t c] obtain ps where
    "normalizeItem ?i = Inr ps"
    and "JStr ''4.6'' = JStr ''4.6'' \<longrightarrow> rating ps = Some (fl64 (46 / 10))"
    and "JStr ''321'' = JStr ''321'' \<longrightarrow> totalReviews ps = Some (Fin 321)"
    by (elim exE conjE) (rule that)
  then have "\<exists>ps. normalizeItem ?i = Inr ps
        \<and> rating ps = Some (fl64 (46 / 10)) \<and> totalReviews ps = Some (Fin 321)"
    by simp
  with a fl64_4_6 show ?thesis by (intro conjI)
qed

lemma floor_rat_minus_divide_numeral:
  "\<lfloor>- (numeral a / numeral b :: rat)\<rfloor> = - numeral a div numeral b"
  by (metis divide_minus_left floor_divide_of_int_eq of_int_neg_numeral of_int_numeral)

text \<open>
  C9. The data model, and the output schema under which the tool is registered, bound a
  rating to the range from 0 to 5 and a review count to the integers that are not
  negative. The code does not keep that: at an item whose star rating is \<open>7\<close> and whose
  review count is \<open>-3\<close> the summary carries both as they are.
\<close>

theorem normalizeItem_out_of_range:
  "normalizeItem (JObj [(''ASIN'', JStr ''B0TEST123''),
       (''CustomerReviews'', JObj [(''StarRating'', JNum (Fin 7)),
                                   (''TotalReviewCount'', JNum (Fin (- 3)))])]) =
     Inr \<lparr> asin = JStr ''B0TEST123'', title = JStr ''B0TEST123'', detailPageUrl = None,
           price = None, rating = Some (Fin 7), totalReviews = Some (Fin (- 3)),
           imageUrl = None \<rparr>
   \<and> \<not> ratingInRange (Fin 7) \<and> \<not> nonneg_integer (Fin (- 3))"
  by (simp add: normalizeItem_def getProp_def optProp_def coalesce_def parseNumber_def
      parseInteger_def normalizePrice_def Let_def ratingInRange_def
      floor_rat_minus_divide_numeral)

end
